theory Spec2Isabelle
  imports Main "HOL-Library.Sublist"
begin

section \<open>The JavaScript the dashboard relies on\<close>

text \<open>
  The dashboard (\<^verbatim>\<open>app.tsx\<close>) is glue over \<^verbatim>\<open>cockpit.spawn\<close>, \<^verbatim>\<open>JSON.parse\<close> and the
  string methods of JavaScript. This section models the part of the language the verified
  functions use. A string is a list of characters; the model covers ASCII text, which is what
  the command outputs, tags and version strings of this program consist of. An exception is a
  value of type \<open>error\<close> on the left of a sum.
\<close>

datatype error =
    SpawnError   \<comment> \<open>\<^verbatim>\<open>cockpit.spawn\<close> rejected: the process could not run or exited non-zero\<close>
  | SyntaxError  \<comment> \<open>\<^verbatim>\<open>JSON.parse\<close> threw\<close>
  | TypeError    \<comment> \<open>a property read on \<^verbatim>\<open>undefined\<close> or \<^verbatim>\<open>null\<close>, or a call of a missing method\<close>

subsection \<open>Strings\<close>

definition is_ws :: "char \<Rightarrow> bool" where
  \<comment> \<open>the ASCII white space and line terminators that \<^verbatim>\<open>trim\<close> and \<^verbatim>\<open>parseInt\<close> skip\<close>
  "is_ws c = (c \<in> set [CHR 0x09, CHR 0x0A, CHR 0x0B, CHR 0x0C, CHR 0x0D, CHR 0x20])"

definition trim :: "string \<Rightarrow> string" where
  "trim s = rev (dropWhile is_ws (rev (dropWhile is_ws s)))"

definition startsWith :: "string \<Rightarrow> string \<Rightarrow> bool" where
  "startsWith s p = (take (length p) s = p)"

fun includes_js :: "string \<Rightarrow> string \<Rightarrow> bool" where
  \<comment> \<open>\<^verbatim>\<open>s.includes(sub)\<close>\<close>
  "includes_js [] sub = (sub = [])"
| "includes_js (c # cs) sub = (startsWith (c # cs) sub \<or> includes_js cs sub)"

fun split_on :: "char \<Rightarrow> string \<Rightarrow> string list" where
  \<comment> \<open>\<^verbatim>\<open>s.split(c)\<close> for a one-character separator: never empty, \<^verbatim>\<open>"".split(c)\<close> is \<^verbatim>\<open>[""]\<close>\<close>
  "split_on c [] = [[]]"
| "split_on c (x # xs) =
     (if x = c then [] # split_on c xs
      else (case split_on c xs of [] \<Rightarrow> [[x]] | y # ys \<Rightarrow> (x # y) # ys))"

fun replace_first :: "char \<Rightarrow> string \<Rightarrow> string" where
  \<comment> \<open>\<^verbatim>\<open>s.replace(c, '')\<close> with a string pattern: only the first occurrence goes\<close>
  "replace_first c [] = []"
| "replace_first c (x # xs) = (if x = c then xs else x # replace_first c xs)"

definition lower_letters :: string where "lower_letters = ''abcdefghijklmnopqrstuvwxyz''"
definition upper_letters :: string where "upper_letters = ''ABCDEFGHIJKLMNOPQRSTUVWXYZ''"

definition upper_char :: "char \<Rightarrow> char" where
  "upper_char c = (case map_of (zip lower_letters upper_letters) c of Some u \<Rightarrow> u | None \<Rightarrow> c)"

definition lower_char :: "char \<Rightarrow> char" where
  "lower_char c = (case map_of (zip upper_letters lower_letters) c of Some l \<Rightarrow> l | None \<Rightarrow> c)"

definition toUpperCase :: "string \<Rightarrow> string" where "toUpperCase s = map upper_char s"
definition toLowerCase :: "string \<Rightarrow> string" where "toLowerCase s = map lower_char s"

definition nth_opt :: "'a list \<Rightarrow> nat \<Rightarrow> 'a option" where
  \<comment> \<open>\<^verbatim>\<open>xs[i]\<close>: \<^verbatim>\<open>undefined\<close> (here \<open>None\<close>) out of range\<close>
  "nth_opt xs i = (if i < length xs then Some (xs ! i) else None)"

subsection \<open>Numbers\<close>

text \<open>
  The numbers of this program are the results of \<^verbatim>\<open>parseInt\<close> and sums of products of them.
  They are integers or \<^verbatim>\<open>NaN\<close>; below \<open>2^53\<close> a JavaScript number holds an integer exactly, and
  the model is exact there.
\<close>

datatype number = NaN | Val int

fun num_add :: "number \<Rightarrow> number \<Rightarrow> number" where
  "num_add (Val a) (Val b) = Val (a + b)"
| "num_add _ _ = NaN"

fun num_sub :: "number \<Rightarrow> number \<Rightarrow> number" where
  "num_sub (Val a) (Val b) = Val (a - b)"
| "num_sub _ _ = NaN"

fun num_mul :: "number \<Rightarrow> number \<Rightarrow> number" where
  "num_mul (Val a) (Val b) = Val (a * b)"
| "num_mul _ _ = NaN"

fun num_gt :: "number \<Rightarrow> number \<Rightarrow> bool" where
  \<comment> \<open>\<^verbatim>\<open>a > b\<close>: false as soon as one side is \<^verbatim>\<open>NaN\<close>\<close>
  "num_gt (Val a) (Val b) = (a > b)"
| "num_gt _ _ = False"

definition digit_table :: "(char \<times> nat) list" where
  "digit_table =
     [(CHR ''0'', 0), (CHR ''1'', 1), (CHR ''2'', 2), (CHR ''3'', 3), (CHR ''4'', 4),
      (CHR ''5'', 5), (CHR ''6'', 6), (CHR ''7'', 7), (CHR ''8'', 8), (CHR ''9'', 9),
      (CHR ''a'', 10), (CHR ''b'', 11), (CHR ''c'', 12), (CHR ''d'', 13), (CHR ''e'', 14),
      (CHR ''f'', 15), (CHR ''A'', 10), (CHR ''B'', 11), (CHR ''C'', 12), (CHR ''D'', 13),
      (CHR ''E'', 14), (CHR ''F'', 15)]"

definition is_digit_in :: "nat \<Rightarrow> char \<Rightarrow> bool" where
  \<comment> \<open>a digit of the radix\<close>
  "is_digit_in radix c = (case map_of digit_table c of Some d \<Rightarrow> d < radix | None \<Rightarrow> False)"

definition digit_val :: "char \<Rightarrow> nat" where
  "digit_val c = (case map_of digit_table c of Some d \<Rightarrow> d | None \<Rightarrow> 0)"

definition digits_value :: "nat \<Rightarrow> string \<Rightarrow> nat" where
  "digits_value radix ds = foldl (\<lambda>acc c. acc * radix + digit_val c) 0 ds"

definition parse_digits :: "nat \<Rightarrow> bool \<Rightarrow> string \<Rightarrow> number" where
  \<comment> \<open>the longest prefix of digits, or \<^verbatim>\<open>NaN\<close> when there is none\<close>
  "parse_digits radix neg s =
     (let ds = takeWhile (is_digit_in radix) s in
      if ds = [] then NaN
      else if neg then Val (- int (digits_value radix ds))
      else Val (int (digits_value radix ds)))"

definition parseInt :: "string \<Rightarrow> number" where
  \<comment> \<open>\<^verbatim>\<open>parseInt(s)\<close> with no radix: white space, a sign, \<^verbatim>\<open>0x\<close> for base 16, then digits\<close>
  "parseInt s =
     (let t = dropWhile is_ws s;
          neg = startsWith t ''-'';
          u = (if startsWith t ''-'' \<or> startsWith t ''+'' then drop 1 t else t)
      in if startsWith u ''0x'' \<or> startsWith u ''0X'' then parse_digits 16 neg (drop 2 u)
         else parse_digits 10 neg u)"

definition or_zero :: "number \<Rightarrow> number" where
  \<comment> \<open>\<^verbatim>\<open>n || 0\<close>: \<^verbatim>\<open>NaN\<close> and \<^verbatim>\<open>0\<close> are falsy\<close>
  "or_zero n = (case n of NaN \<Rightarrow> Val 0 | Val k \<Rightarrow> (if k = 0 then Val 0 else Val k))"

definition nth_num :: "number list \<Rightarrow> nat \<Rightarrow> number" where
  \<comment> \<open>\<^verbatim>\<open>parts[i]\<close> read as an operand of arithmetic: \<^verbatim>\<open>undefined\<close> becomes \<^verbatim>\<open>NaN\<close>\<close>
  "nth_num parts i = (case nth_opt parts i of Some n \<Rightarrow> n | None \<Rightarrow> NaN)"

subsection \<open>Values parsed from JSON\<close>

text \<open>
  \<^verbatim>\<open>JSON.parse\<close> returns a value of any shape, and the program reads it without validation.
  An object is the list of its entries in enumeration order (the order of \<^verbatim>\<open>Object.entries\<close>
  and of \<^verbatim>\<open>JSON.stringify\<close>); \<open>JUndefined\<close> is what reading a missing property gives.
  A JSON number is modelled when it is an integer.
\<close>

datatype jsval =
    JUndefined
  | JNull
  | JBool bool
  | JNum int
  | JStr string
  | JArr "jsval list"
  | JObj "(string \<times> jsval) list"

fun truthy :: "jsval \<Rightarrow> bool" where
  "truthy JUndefined = False"
| "truthy JNull = False"
| "truthy (JBool b) = b"
| "truthy (JNum n) = (n \<noteq> 0)"
| "truthy (JStr s) = (s \<noteq> [])"
| "truthy (JArr _) = True"
| "truthy (JObj _) = True"

fun get_prop :: "jsval \<Rightarrow> string \<Rightarrow> error + jsval" where
  \<comment> \<open>\<^verbatim>\<open>v.k\<close>, for the property names this program reads (none of them is built in)\<close>
  "get_prop JUndefined k = Inl TypeError"
| "get_prop JNull k = Inl TypeError"
| "get_prop (JObj fs) k = (case map_of fs k of Some x \<Rightarrow> Inr x | None \<Rightarrow> Inr JUndefined)"
| "get_prop _ k = Inr JUndefined"

fun opt_prop :: "jsval \<Rightarrow> string \<Rightarrow> error + jsval" where
  \<comment> \<open>\<^verbatim>\<open>v?.k\<close>\<close>
  "opt_prop JUndefined k = Inr JUndefined"
| "opt_prop JNull k = Inr JUndefined"
| "opt_prop v k = get_prop v k"

fun string_of_nat :: "nat \<Rightarrow> string" where
  "string_of_nat n =
     (if n < 10 then [''0123456789'' ! n]
      else string_of_nat (n div 10) @ [''0123456789'' ! (n mod 10)])"

declare string_of_nat.simps [simp del]

definition string_of_int :: "int \<Rightarrow> string" where
  "string_of_int i = (if i < 0 then CHR ''-'' # string_of_nat (nat (- i)) else string_of_nat (nat i))"

fun join :: "string \<Rightarrow> string list \<Rightarrow> string" where
  "join sep [] = []"
| "join sep [x] = x"
| "join sep (x # y # ys) = x @ sep @ join sep (y # ys)"

fun toString :: "jsval \<Rightarrow> string" where
  \<comment> \<open>the string a template literal \<^verbatim>\<open>`${v}`\<close> inserts\<close>
  "toString JUndefined = ''undefined''"
| "toString JNull = ''null''"
| "toString (JBool b) = (if b then ''true'' else ''false'')"
| "toString (JNum n) = string_of_int n"
| "toString (JStr s) = s"
| "toString (JArr xs) =
     join '','' (map (\<lambda>x. if x = JUndefined \<or> x = JNull then [] else toString x) xs)"
| "toString (JObj fs) = ''[object Object]''"

subsection \<open>The host\<close>

text \<open>
  Everything a function of the dashboard learns about the machine comes from
  \<^verbatim>\<open>cockpit.spawn\<close>, which resolves to the standard output of a command or rejects, from
  \<^verbatim>\<open>JSON.parse\<close>, and from \<^verbatim>\<open>window.location.hostname\<close>. Within one run of a function no
  command line is issued twice, so the answers of the host are a function of the command line.
\<close>

record host =
  spawn :: "string list \<Rightarrow> error + string"
  JSON_parse :: "string \<Rightarrow> jsval option"
  hostname :: string

definition health_url :: "host \<Rightarrow> string" where
  "health_url h = ''http://'' @ hostname h @ '':8080/api/v2/health''"

section \<open>Status probes\<close>

text \<open>
  The three records have fields of the same names in the source (\<^verbatim>\<open>running\<close>, \<^verbatim>\<open>exists\<close>,
  \<^verbatim>\<open>status\<close>); a letter in front keeps them apart here. An optional field is an \<open>option\<close>.
\<close>

record DockerStatus =
  d_available :: bool
  d_running :: bool
  d_version :: "string option"

record ContainerStatus =
  c_exists :: bool
  c_running :: bool
  c_imagePresent :: bool
  c_containerId :: "string option"
  c_status :: "string option"

record SystemdStatus =
  s_exists :: bool
  s_running :: bool
  s_enabled :: bool
  s_status :: "string option"

subsection \<open>checkDockerStatus\<close>

definition docker_default :: DockerStatus where
  "docker_default = \<lparr>d_available = False, d_running = False, d_version = None\<rparr>"

definition checkDockerStatus_try :: "host \<Rightarrow> error + DockerStatus" where
  \<comment> \<open>the \<^verbatim>\<open>try\<close> block\<close>
  "checkDockerStatus_try h =
     (case spawn h [''docker'', ''--version''] of
        Inl e \<Rightarrow> Inl e
      | Inr dockerVersion \<Rightarrow>
          (case spawn h [''systemctl'', ''is-active'', ''docker''] of
             Inl e \<Rightarrow> Inl e
           | Inr dockerService \<Rightarrow>
               Inr \<lparr>d_available = True,
                    d_running = (trim dockerService = ''active''),
                    d_version = Some (trim dockerVersion)\<rparr>))"

definition checkDockerStatus :: "host \<Rightarrow> DockerStatus" where
  \<comment> \<open>the status \<^verbatim>\<open>setDockerStatus\<close> receives\<close>
  "checkDockerStatus h =
     (case checkDockerStatus_try h of Inl e \<Rightarrow> docker_default | Inr st \<Rightarrow> st)"

subsection \<open>checkSystemdStatus\<close>

definition systemd_default :: SystemdStatus where
  "systemd_default = \<lparr>s_exists = False, s_running = False, s_enabled = False, s_status = None\<rparr>"

definition unit_name :: string where "unit_name = ''birdnet-go.service''"

definition checkSystemdStatus_try :: "host \<Rightarrow> error + SystemdStatus" where
  "checkSystemdStatus_try h =
     (case spawn h [''systemctl'', ''list-unit-files'', ''--no-pager'', ''--plain'', unit_name] of
        Inl e \<Rightarrow> Inl e
      | Inr serviceFiles \<Rightarrow>
          if includes_js serviceFiles unit_name then
            (let isEnabled =
                   (case spawn h [''systemctl'', ''is-enabled'', unit_name] of
                      Inl e \<Rightarrow> False
                    | Inr enabledState \<Rightarrow> trim enabledState = ''enabled'');
                 simpleStatus =
                   (case spawn h [''systemctl'', ''is-active'', unit_name] of
                      Inl e \<Rightarrow> ''inactive''
                    | Inr activeState \<Rightarrow> trim activeState)
             in Inr \<lparr>s_exists = True, s_running = (simpleStatus = ''active''),
                     s_enabled = isEnabled, s_status = Some simpleStatus\<rparr>)
          else Inr systemd_default)"

definition checkSystemdStatus :: "host \<Rightarrow> SystemdStatus" where
  "checkSystemdStatus h =
     (case checkSystemdStatus_try h of Inl e \<Rightarrow> systemd_default | Inr st \<Rightarrow> st)"

subsection \<open>checkBirdNetGoStatus\<close>

definition container_default :: ContainerStatus where
  "container_default =
     \<lparr>c_exists = False, c_running = False, c_imagePresent = False,
      c_containerId = None, c_status = None\<rparr>"

definition image_prefix :: string where "image_prefix = ''ghcr.io/tphakala/birdnet-go''"

definition healthSaysRunning :: "host \<Rightarrow> bool" where
  \<comment> \<open>\<^verbatim>\<open>isActuallyRunning\<close>: the inner \<^verbatim>\<open>try\<close> around the health request\<close>
  "healthSaysRunning h =
     (case spawn h [''curl'', ''-s'', ''-m'', ''2'', health_url h] of
        Inl e \<Rightarrow> False
      | Inr result \<Rightarrow>
          if result = [] then False
          else (case JSON_parse h result of
                  None \<Rightarrow> False
                | Some healthData \<Rightarrow>
                    (case get_prop healthData ''status'' of
                       Inl e \<Rightarrow> False
                     | Inr st \<Rightarrow> st = JStr ''healthy'' \<or> st = JStr ''degraded'')))"

definition isBirdnetLine :: "string \<Rightarrow> error + bool" where
  \<comment> \<open>the callback of \<^verbatim>\<open>containerLines.find\<close>; \<^verbatim>\<open>image.startsWith\<close> throws when a line has no second field\<close>
  "isBirdnetLine line =
     (let parts = split_on CHR ''|'' line in
      case nth_opt parts 1 of
        None \<Rightarrow> Inl TypeError
      | Some img \<Rightarrow>
          if startsWith img ''vsc-'' then Inr False
          else Inr (startsWith img image_prefix \<or> img = ''birdnet-go''
                    \<or> nth_opt parts 3 = Some ''birdnet-go''))"

fun find_js :: "('a \<Rightarrow> error + bool) \<Rightarrow> 'a list \<Rightarrow> error + 'a option" where
  \<comment> \<open>\<^verbatim>\<open>xs.find(p)\<close>: the first element \<open>p\<close> accepts; an exception of \<open>p\<close> ends the search\<close>
  "find_js p [] = Inr None"
| "find_js p (x # xs) =
     (case p x of Inl e \<Rightarrow> Inl e | Inr b \<Rightarrow> if b then Inr (Some x) else find_js p xs)"

definition ps_command :: "string list" where
  "ps_command = [''docker'', ''ps'', ''-a'', ''--format'', ''{{.ID}}|{{.Image}}|{{.Status}}|{{.Names}}'']"

definition images_command :: "string list" where
  "images_command = [''docker'', ''images'', ''--format'', ''{{.Repository}}:{{.Tag}}'']"

definition checkBirdNetGoStatus_try :: "host \<Rightarrow> error + ContainerStatus" where
  \<comment> \<open>the outer \<^verbatim>\<open>try\<close> block; \<^verbatim>\<open>if (birdnetContainer)\<close> is false for no line and for an empty one,
      and \<^verbatim>\<open>status.startsWith\<close> throws when the line has no third field\<close>
  "checkBirdNetGoStatus_try h =
     (case spawn h images_command of
        Inl e \<Rightarrow> Inl e
      | Inr images \<Rightarrow>
          (let imagePresent = includes_js images image_prefix;
               isActuallyRunning = healthSaysRunning h
           in case spawn h ps_command of
                Inl e \<Rightarrow> Inl e
              | Inr containers \<Rightarrow>
                  if trim containers \<noteq> [] then
                    (case find_js isBirdnetLine (split_on CHR 0x0A (trim containers)) of
                       Inl e \<Rightarrow> Inl e
                     | Inr birdnetContainer \<Rightarrow>
                         (case (if birdnetContainer = Some [] then None else birdnetContainer) of
                            Some line \<Rightarrow>
                              (let parts = split_on CHR ''|'' line in
                               case nth_opt parts 2 of
                                 None \<Rightarrow> Inl TypeError
                               | Some status \<Rightarrow>
                                   Inr \<lparr>c_exists = True,
                                        c_running = (isActuallyRunning \<or> startsWith status ''Up''),
                                        c_imagePresent = imagePresent,
                                        c_containerId = nth_opt parts 0,
                                        c_status = Some status\<rparr>)
                          | None \<Rightarrow>
                              if isActuallyRunning then
                                Inr \<lparr>c_exists = True, c_running = True,
                                     c_imagePresent = imagePresent, c_containerId = None,
                                     c_status = Some ''Running (non-Docker or custom container)''\<rparr>
                              else
                                Inr \<lparr>c_exists = False, c_running = False,
                                     c_imagePresent = imagePresent,
                                     c_containerId = None, c_status = None\<rparr>))
                  else if isActuallyRunning then
                    Inr \<lparr>c_exists = True, c_running = True, c_imagePresent = imagePresent,
                         c_containerId = None, c_status = Some ''Running (non-Docker)''\<rparr>
                  else
                    Inr \<lparr>c_exists = False, c_running = False, c_imagePresent = imagePresent,
                         c_containerId = None, c_status = None\<rparr>))"

definition checkBirdNetGoStatus :: "host \<Rightarrow> ContainerStatus" where
  "checkBirdNetGoStatus h =
     (case checkBirdNetGoStatus_try h of Inl e \<Rightarrow> container_default | Inr st \<Rightarrow> st)"

section \<open>The version reconciler\<close>

subsection \<open>Nightly tags\<close>

fun match_nightly :: "string \<Rightarrow> string option" where
  \<comment> \<open>\<^verbatim>\<open>s.match(/nightly-(\d{8})/)\<close>: the eight digits of the leftmost match, if any\<close>
  "match_nightly [] = None"
| "match_nightly (c # cs) =
     (let d = take 8 (drop 8 (c # cs)) in
      if startsWith (c # cs) ''nightly-'' \<and> length d = 8 \<and> list_all (is_digit_in 10) d
      then Some d else match_nightly cs)"

record scan =
  foundTags :: "string list"      \<comment> \<open>the local \<^verbatim>\<open>nightlyTags\<close>\<close>
  latestNightlyDate :: number
  latestNightlyTag :: string

definition scan_start :: scan where
  "scan_start = \<lparr>foundTags = [], latestNightlyDate = Val 0, latestNightlyTag = []\<rparr>"

fun forEach_js :: "('s \<Rightarrow> 'a \<Rightarrow> error + 's) \<Rightarrow> 's \<Rightarrow> 'a list \<Rightarrow> error + 's" where
  \<comment> \<open>\<^verbatim>\<open>xs.forEach(f)\<close> for a callback that updates local variables and may throw\<close>
  "forEach_js f s [] = Inr s"
| "forEach_js f s (x # xs) = (case f s x of Inl e \<Rightarrow> Inl e | Inr s' \<Rightarrow> forEach_js f s' xs)"

definition scan_tag :: "scan \<Rightarrow> jsval \<Rightarrow> error + scan" where
  \<comment> \<open>the inner callback; \<^verbatim>\<open>tag.startsWith\<close> throws unless the tag is a string\<close>
  "scan_tag sc t =
     (case t of
        JStr tag \<Rightarrow>
          if startsWith tag ''nightly-'' \<and> match_nightly tag \<noteq> None then
            (let sc1 = sc\<lparr>foundTags := foundTags sc @ [tag]\<rparr> in
             case match_nightly tag of
               None \<Rightarrow> Inr sc1
             | Some d \<Rightarrow>
                 (let date = parseInt d in
                  if num_gt date (latestNightlyDate sc1)
                  then Inr (sc1\<lparr>latestNightlyDate := date, latestNightlyTag := tag\<rparr>)
                  else Inr sc1))
          else Inr sc
      | _ \<Rightarrow> Inl TypeError)"

definition tags_of_version :: "jsval \<Rightarrow> error + jsval" where
  \<comment> \<open>\<^verbatim>\<open>version.metadata?.container?.tags\<close>\<close>
  "tags_of_version version =
     (case get_prop version ''metadata'' of
        Inl e \<Rightarrow> Inl e
      | Inr metadata \<Rightarrow>
          (case opt_prop metadata ''container'' of
             Inl e \<Rightarrow> Inl e
           | Inr container \<Rightarrow> opt_prop container ''tags''))"

definition scan_version :: "scan \<Rightarrow> jsval \<Rightarrow> error + scan" where
  \<comment> \<open>the outer callback; \<^verbatim>\<open>tags.forEach\<close> throws when the truthy \<^verbatim>\<open>tags\<close> is not an array\<close>
  "scan_version sc version =
     (case tags_of_version version of
        Inl e \<Rightarrow> Inl e
      | Inr tags \<Rightarrow>
          if truthy tags then
            (case tags of JArr ts \<Rightarrow> forEach_js scan_tag sc ts | _ \<Rightarrow> Inl TypeError)
          else Inr sc)"

definition tag_date :: "string \<Rightarrow> number" where
  \<comment> \<open>\<^verbatim>\<open>parseInt(a.match(/nightly-(\d{8})/)?.[1] || '0')\<close>\<close>
  "tag_date a = parseInt (case match_nightly a of Some d \<Rightarrow> d | None \<Rightarrow> ''0'')"

definition newest_first :: "string \<Rightarrow> string \<Rightarrow> number" where
  \<comment> \<open>the comparator: \<^verbatim>\<open>dateB - dateA\<close>\<close>
  "newest_first a b = num_sub (tag_date b) (tag_date a)"

fun insert_by :: "('a \<Rightarrow> 'a \<Rightarrow> number) \<Rightarrow> 'a \<Rightarrow> 'a list \<Rightarrow> 'a list" where
  "insert_by cmp x [] = [x]"
| "insert_by cmp x (y # ys) =
     (if num_gt (cmp x y) (Val 0) then y # insert_by cmp x ys else x # y # ys)"

definition sort_js :: "('a \<Rightarrow> 'a \<Rightarrow> number) \<Rightarrow> 'a list \<Rightarrow> 'a list" where
  \<comment> \<open>\<^verbatim>\<open>xs.sort(cmp)\<close>: the stable sort; the language fixes its result whenever the
      comparator is consistent, as a comparison of integer dates is\<close>
  "sort_js cmp xs = foldr (insert_by cmp) xs []"

subsection \<open>VersionInfo and the nightly branch\<close>

text \<open>
  \<^verbatim>\<open>current\<close>, \<^verbatim>\<open>buildDate\<close>, \<^verbatim>\<open>releaseNotes\<close> and \<^verbatim>\<open>releaseUrl\<close> are assigned from parsed
  JSON (\<^verbatim>\<open>data.version\<close>, \<^verbatim>\<open>data.build_date\<close>, \<^verbatim>\<open>release.body\<close>, \<^verbatim>\<open>release.html_url\<close>) as
  they come, so they are \<open>jsval\<close>s; an absent optional field is \<open>None\<close> or \<open>JUndefined\<close>.
\<close>

record VersionInfo =
  current :: jsval
  buildDate :: jsval
  latest :: "string option"
  latestNightly :: "string option"
  nightlyTags :: "string list option"
  updateAvailable :: "bool option"
  checkingUpdate :: "bool option"
  updateError :: "string option"
  releaseNotes :: jsval
  releaseUrl :: jsval

definition registry_command :: "string list" where
  "registry_command =
     [''curl'', ''-s'', ''-m'', ''10'', ''-H'', ''Accept: application/vnd.github+json'',
      ''https://api.github.com/orgs/tphakala/packages/container/birdnet-go/versions?per_page=20'']"

definition releases_command :: "string list" where
  "releases_command =
     [''curl'', ''-s'', ''-m'', ''10'',
      ''https://api.github.com/repos/tphakala/birdnet-go/releases/latest'']"

definition packages_url :: string where
  "packages_url = ''https://github.com/tphakala/birdnet-go/pkgs/container/birdnet-go''"

definition strip_v :: "jsval \<Rightarrow> error + string option" where
  \<comment> \<open>\<^verbatim>\<open>x?.replace('v', '')\<close>: \<^verbatim>\<open>undefined\<close> for a missing value, an exception for a value
      that is not a string\<close>
  "strip_v x =
     (case x of
        JUndefined \<Rightarrow> Inr None
      | JNull \<Rightarrow> Inr None
      | JStr s \<Rightarrow> Inr (Some (replace_first CHR ''v'' s))
      | _ \<Rightarrow> Inl TypeError)"

definition nightly_result :: "number \<Rightarrow> scan \<Rightarrow> VersionInfo \<Rightarrow> VersionInfo" where
  \<comment> \<open>the update after a scan of the registry's answer\<close>
  "nightly_result currentDate sc prev =
     (let sorted_tags = sort_js newest_first (foundTags sc);
          updateAvailable = num_gt (latestNightlyDate sc) currentDate
      in prev\<lparr>latestNightly :=
                 Some (if latestNightlyTag sc \<noteq> [] then latestNightlyTag sc else ''nightly''),
               nightlyTags := Some (take 5 sorted_tags),
               updateAvailable := Some updateAvailable,
               checkingUpdate := Some False,
               releaseNotes :=
                 JStr (if updateAvailable
                       then ''Newer nightly build available: '' @ latestNightlyTag sc
                       else ''You are on the latest nightly build''),
               releaseUrl := JStr packages_url\<rparr>)"

definition nightly_fallback :: "VersionInfo \<Rightarrow> VersionInfo" where
  \<comment> \<open>the update of the inner \<^verbatim>\<open>catch (registryError)\<close>\<close>
  "nightly_fallback prev =
     prev\<lparr>latest := Some ''nightly (development build)'',
          updateAvailable := Some False,
          checkingUpdate := Some False,
          releaseNotes := JStr ''Nightly builds contain the latest development features and fixes'',
          releaseUrl := JStr packages_url\<rparr>"

definition nightly_try :: "host \<Rightarrow> number \<Rightarrow> VersionInfo \<Rightarrow> error + VersionInfo" where
  \<comment> \<open>the inner \<^verbatim>\<open>try\<close> block; \<^verbatim>\<open>versions.forEach\<close> throws unless the answer is an array\<close>
  "nightly_try h currentDate prev =
     (case spawn h registry_command of
        Inl e \<Rightarrow> Inl e
      | Inr packageResult \<Rightarrow>
          if packageResult = [] then Inr prev
          else (case JSON_parse h packageResult of
                  None \<Rightarrow> Inl SyntaxError
                | Some versions \<Rightarrow>
                    (case versions of
                       JArr vs \<Rightarrow>
                         (case forEach_js scan_version scan_start vs of
                            Inl e \<Rightarrow> Inl e
                          | Inr sc \<Rightarrow> Inr (nightly_result currentDate sc prev))
                     | _ \<Rightarrow> Inl TypeError)))"

subsection \<open>The stable branch and checkForUpdates\<close>

text \<open>
  \<^verbatim>\<open>const parseVersion = (v: string) => {
      const parts = v.split('.').map(p => parseInt(p) || 0);
      return parts[0] * 10000 + parts[1] * 100 + parts[2];
  };\<close>
\<close>

definition parseVersion :: "string \<Rightarrow> number" where
  "parseVersion v =
     (let parts = map (\<lambda>p. or_zero (parseInt p)) (split_on CHR ''.'' v) in
      num_add (num_add (num_mul (nth_num parts 0) (Val 10000))
                       (num_mul (nth_num parts 1) (Val 100)))
              (nth_num parts 2))"

definition first_part :: "char \<Rightarrow> string \<Rightarrow> string" where
  \<comment> \<open>\<^verbatim>\<open>s.split(c)[0]\<close>\<close>
  "first_part c s = (case split_on c s of [] \<Rightarrow> [] | x # xs \<Rightarrow> x)"

definition stable_try :: "host \<Rightarrow> string option \<Rightarrow> VersionInfo \<Rightarrow> error + VersionInfo" where
  \<comment> \<open>the stable branch; the \<^verbatim>\<open>try\<close> around the comparison has nothing to catch, since
      \<^verbatim>\<open>parseVersion\<close> does not throw on a string\<close>
  "stable_try h currentVersion prev =
     (case spawn h releases_command of
        Inl e \<Rightarrow> Inl e
      | Inr result \<Rightarrow>
          if result = [] then Inr prev
          else (case JSON_parse h result of
                  None \<Rightarrow> Inl SyntaxError
                | Some release \<Rightarrow>
                    (case get_prop release ''tag_name'' of
                       Inl e \<Rightarrow> Inl e
                     | Inr tag_name \<Rightarrow>
                         (case strip_v tag_name of
                            Inl e \<Rightarrow> Inl e
                          | Inr latestStable \<Rightarrow>
                              (let updateAvailable =
                                     (case (latestStable, currentVersion) of
                                        (Some l, Some c) \<Rightarrow>
                                          l \<noteq> [] \<and> c \<noteq> [] \<and>
                                          num_gt (parseVersion l)
                                                 (parseVersion (first_part CHR ''-'' c))
                                      | _ \<Rightarrow> False)
                               in case (get_prop release ''body'', get_prop release ''html_url'') of
                                    (Inr body, Inr html_url) \<Rightarrow>
                                      Inr (prev\<lparr>latest := latestStable,
                                                updateAvailable := Some updateAvailable,
                                                checkingUpdate := Some False,
                                                releaseNotes := body,
                                                releaseUrl := html_url\<rparr>)
                                  | _ \<Rightarrow> Inl TypeError)))))"

definition current_date :: "string \<Rightarrow> number" where
  \<comment> \<open>\<^verbatim>\<open>versionMatch ? parseInt(versionMatch[1]) : 0\<close>\<close>
  "current_date currentVersion =
     (case match_nightly currentVersion of Some d \<Rightarrow> parseInt d | None \<Rightarrow> Val 0)"

definition checkForUpdates_try :: "host \<Rightarrow> jsval \<Rightarrow> VersionInfo \<Rightarrow> error + VersionInfo" where
  \<comment> \<open>the outer \<^verbatim>\<open>try\<close> block. \<open>cur\<close> is the \<^verbatim>\<open>current\<close> the function reads when it starts;
      \<open>prev\<close> is the state its one \<^verbatim>\<open>setVersionInfo\<close> updates\<close>
  "checkForUpdates_try h cur prev =
     (case strip_v cur of
        Inl e \<Rightarrow> Inl e
      | Inr currentVersion \<Rightarrow>
          (case currentVersion of
             None \<Rightarrow> stable_try h currentVersion prev
           | Some cv \<Rightarrow>
               if includes_js cv ''nightly'' then
                 (case nightly_try h (current_date cv) prev of
                    Inl e \<Rightarrow> Inr (nightly_fallback prev)
                  | Inr r \<Rightarrow> Inr r)
               else stable_try h currentVersion prev))"

definition update_failed :: "VersionInfo \<Rightarrow> VersionInfo" where
  \<comment> \<open>the update of the outer \<^verbatim>\<open>catch\<close>\<close>
  "update_failed prev =
     prev\<lparr>checkingUpdate := Some False, updateError := Some ''Failed to check for updates''\<rparr>"

definition checkForUpdates :: "host \<Rightarrow> VersionInfo \<Rightarrow> VersionInfo \<Rightarrow> VersionInfo" where
  \<comment> \<open>\<^verbatim>\<open>src/src/app.tsx\<close>: \<open>seen\<close> is the \<^verbatim>\<open>versionInfo\<close> of the render the function closes over,
      \<open>prev\<close> the state when it starts; the result is the state after its updates\<close>
  "checkForUpdates h seen prev =
     (let started = prev\<lparr>checkingUpdate := Some True, updateError := None\<rparr> in
      case checkForUpdates_try h (current seen) started of
        Inl e \<Rightarrow> update_failed started
      | Inr r \<Rightarrow> r)"

definition checkForUpdates_ref :: "host \<Rightarrow> VersionInfo \<Rightarrow> VersionInfo \<Rightarrow> VersionInfo" where
  \<comment> \<open>the other copy of the file: it reads \<^verbatim>\<open>versionInfoRef.current\<close> (\<open>seen\<close>) and its first
      update leaves \<^verbatim>\<open>updateError\<close> alone\<close>
  "checkForUpdates_ref h seen prev =
     (let started = prev\<lparr>checkingUpdate := Some True\<rparr> in
      case checkForUpdates_try h (current seen) started of
        Inl e \<Rightarrow> update_failed started
      | Inr r \<Rightarrow> r)"

section \<open>Application logs\<close>

subsection \<open>JSON.stringify\<close>

definition hex_digit :: "nat \<Rightarrow> char" where
  "hex_digit n = ''0123456789abcdef'' ! (n mod 16)"

definition escape_char :: "char \<Rightarrow> string" where
  \<comment> \<open>how \<^verbatim>\<open>JSON.stringify\<close> writes one character of a string\<close>
  "escape_char c =
     (if c = CHR 0x22 then [CHR 0x5C, CHR 0x22]
      else if c = CHR 0x5C then [CHR 0x5C, CHR 0x5C]
      else if c = CHR 0x08 then [CHR 0x5C, CHR ''b'']
      else if c = CHR 0x0C then [CHR 0x5C, CHR ''f'']
      else if c = CHR 0x0A then [CHR 0x5C, CHR ''n'']
      else if c = CHR 0x0D then [CHR 0x5C, CHR ''r'']
      else if c = CHR 0x09 then [CHR 0x5C, CHR ''t'']
      else if (of_char c :: nat) < 32
        then [CHR 0x5C, CHR ''u'', CHR ''0'', CHR ''0'',
              hex_digit (of_char c div 16), hex_digit (of_char c)]
      else [c])"

definition quote :: "string \<Rightarrow> string" where
  "quote s = CHR 0x22 # concat (map escape_char s) @ [CHR 0x22]"

fun stringify :: "jsval \<Rightarrow> string"
  and stringify_elems :: "jsval list \<Rightarrow> string list"
  and stringify_fields :: "(string \<times> jsval) list \<Rightarrow> string list" where
  \<comment> \<open>\<^verbatim>\<open>JSON.stringify(v)\<close> for a value other than \<^verbatim>\<open>undefined\<close>: no white space, entries in
      enumeration order, an \<^verbatim>\<open>undefined\<close> element written \<^verbatim>\<open>null\<close> and an \<^verbatim>\<open>undefined\<close> entry left out\<close>
  "stringify JUndefined = ''null''"
| "stringify JNull = ''null''"
| "stringify (JBool b) = (if b then ''true'' else ''false'')"
| "stringify (JNum n) = string_of_int n"
| "stringify (JStr s) = quote s"
| "stringify (JArr xs) = ''['' @ join '','' (stringify_elems xs) @ '']''"
| "stringify (JObj fs) = ''{'' @ join '','' (stringify_fields fs) @ ''}''"
| "stringify_elems [] = []"
| "stringify_elems (x # xs) = stringify x # stringify_elems xs"
| "stringify_fields [] = []"
| "stringify_fields ((k, v) # fs) =
     (if v = JUndefined then stringify_fields fs
      else (quote k @ '':'' @ stringify v) # stringify_fields fs)"

subsection \<open>fetchAppLogs\<close>

definition logs_dir :: string where "logs_dir = ''/home/thakala/birdnet-go-app/data/logs/''"

definition parse_line :: "host \<Rightarrow> string \<Rightarrow> jsval" where
  \<comment> \<open>the callback of \<^verbatim>\<open>map\<close>: \<^verbatim>\<open>null\<close> for a line \<^verbatim>\<open>JSON.parse\<close> rejects\<close>
  "parse_line h line = (case JSON_parse h line of None \<Rightarrow> JNull | Some v \<Rightarrow> v)"

definition fetchAppLogs :: "host \<Rightarrow> string \<Rightarrow> jsval list \<Rightarrow> jsval list" where
  \<comment> \<open>\<^verbatim>\<open>appLogs\<close> after the call, from the selected file and \<^verbatim>\<open>appLogs\<close> before it\<close>
  "fetchAppLogs h selectedLogFile appLogs =
     (if selectedLogFile = [] then appLogs
      else (case spawn h [''tail'', ''-n'', ''500'', logs_dir @ selectedLogFile] of
              Inl e \<Rightarrow> []
            | Inr result \<Rightarrow>
                rev (filter (\<lambda>log. log \<noteq> JNull)
                       (map (parse_line h) (split_on CHR 0x0A (trim result))))))"

subsection \<open>filteredLogs\<close>

record LogView =
  appLogs :: "jsval list"
  logLevelFilter :: string
  logSearchText :: string

definition level_differs :: "string \<Rightarrow> jsval \<Rightarrow> error + bool" where
  \<comment> \<open>\<^verbatim>\<open>log.level?.toUpperCase() !== logLevelFilter.toUpperCase()\<close>\<close>
  "level_differs lf log =
     (case get_prop log ''level'' of
        Inl e \<Rightarrow> Inl e
      | Inr lv \<Rightarrow>
          (case lv of
             JUndefined \<Rightarrow> Inr True
           | JNull \<Rightarrow> Inr True
           | JStr s \<Rightarrow> Inr (toUpperCase s \<noteq> toUpperCase lf)
           | _ \<Rightarrow> Inl TypeError))"

definition search_misses :: "string \<Rightarrow> jsval \<Rightarrow> error + bool" where
  \<comment> \<open>\<^verbatim>\<open>!JSON.stringify(log).toLowerCase().includes(logSearchText.toLowerCase())\<close>\<close>
  "search_misses st log =
     (if log = JUndefined then Inl TypeError
      else Inr (\<not> includes_js (toLowerCase (stringify log)) (toLowerCase st)))"

definition keepLog :: "string \<Rightarrow> string \<Rightarrow> jsval \<Rightarrow> error + bool" where
  \<comment> \<open>the callback of \<^verbatim>\<open>appLogs.filter\<close>; \<^verbatim>\<open>&&\<close> evaluates its right side only when the left is true\<close>
  "keepLog lf st log =
     (case (if lf \<noteq> ''all'' then level_differs lf log else Inr False) of
        Inl e \<Rightarrow> Inl e
      | Inr differs \<Rightarrow>
          if differs then Inr False
          else (case (if st \<noteq> [] then search_misses st log else Inr False) of
                  Inl e \<Rightarrow> Inl e
                | Inr misses \<Rightarrow> if misses then Inr False else Inr True))"

fun filter_js :: "('a \<Rightarrow> error + bool) \<Rightarrow> 'a list \<Rightarrow> error + 'a list" where
  \<comment> \<open>\<^verbatim>\<open>xs.filter(p)\<close>: a new array; an exception of \<open>p\<close> ends it\<close>
  "filter_js p [] = Inr []"
| "filter_js p (x # xs) =
     (case p x of
        Inl e \<Rightarrow> Inl e
      | Inr b \<Rightarrow>
          (case filter_js p xs of
             Inl e \<Rightarrow> Inl e
           | Inr ys \<Rightarrow> Inr (if b then x # ys else ys)))"

definition filteredLogs :: "LogView \<Rightarrow> error + jsval list" where
  \<comment> \<open>computed at every render from the state, which it leaves as it is\<close>
  "filteredLogs view = filter_js (keepLog (logLevelFilter view) (logSearchText view)) (appLogs view)"

section \<open>The upgrade\<close>

subsection \<open>The arguments of docker run\<close>

definition bind_err :: "error + 'a \<Rightarrow> ('a \<Rightarrow> error + 'b) \<Rightarrow> error + 'b" where
  \<comment> \<open>one statement after another: an exception skips the rest\<close>
  "bind_err m f = (case m of Inl e \<Rightarrow> Inl e | Inr x \<Rightarrow> f x)"

definition object_entries :: "jsval \<Rightarrow> (string \<times> jsval) list" where
  \<comment> \<open>\<^verbatim>\<open>Object.entries(v)\<close> for a truthy \<open>v\<close>\<close>
  "object_entries v =
     (case v of
        JObj fs \<Rightarrow> fs
      | JArr xs \<Rightarrow> zip (map string_of_nat [0..<length xs]) xs
      | JStr s \<Rightarrow> zip (map string_of_nat [0..<length s]) (map (\<lambda>c. JStr [c]) s)
      | _ \<Rightarrow> [])"

definition forEach_val :: "('s \<Rightarrow> jsval \<Rightarrow> error + 's) \<Rightarrow> 's \<Rightarrow> jsval \<Rightarrow> error + 's" where
  \<comment> \<open>\<^verbatim>\<open>v.forEach(f)\<close> for a truthy \<open>v\<close>: only an array has the method\<close>
  "forEach_val f s v = (case v of JArr xs \<Rightarrow> forEach_js f s xs | _ \<Rightarrow> Inl TypeError)"

definition push_port :: "string \<Rightarrow> string list \<Rightarrow> jsval \<Rightarrow> error + string list" where
  \<comment> \<open>\<^verbatim>\<open>createArgs.push('-p', `${binding.HostPort}:${containerPort.split('/')[0]}`)\<close>\<close>
  "push_port containerPort args binding =
     bind_err (get_prop binding ''HostPort'') (\<lambda>hostPort.
       Inr (args @ [''-p'', toString hostPort @ '':'' @ first_part CHR ''/'' containerPort]))"

definition port_entry :: "string list \<Rightarrow> string \<times> jsval \<Rightarrow> error + string list" where
  "port_entry args entry =
     (case entry of
        (containerPort, hostPorts) \<Rightarrow>
          (case hostPorts of
             JArr bindings \<Rightarrow> forEach_js (push_port containerPort) args bindings
           | _ \<Rightarrow> Inr args))"

definition push_mount :: "string list \<Rightarrow> jsval \<Rightarrow> error + string list" where
  "push_mount args mount =
     bind_err (get_prop mount ''Type'') (\<lambda>ty.
       if ty = JStr ''bind'' then
         bind_err (get_prop mount ''Source'') (\<lambda>source.
         bind_err (get_prop mount ''Destination'') (\<lambda>destination.
           Inr (args @ [''-v'', toString source @ '':'' @ toString destination])))
       else Inr args)"

definition push_env :: "string list \<Rightarrow> jsval \<Rightarrow> error + string list" where
  \<comment> \<open>\<^verbatim>\<open>env.startsWith\<close> throws unless the entry is a string\<close>
  "push_env args env =
     (case env of
        JStr e \<Rightarrow>
          if \<not> startsWith e ''PATH='' \<and> \<not> startsWith e ''HOME='' then Inr (args @ [''-e'', e])
          else Inr args
      | _ \<Rightarrow> Inl TypeError)"

definition createArgs :: "jsval \<Rightarrow> string \<Rightarrow> error + string list" where
  \<comment> \<open>the array \<^verbatim>\<open>createArgs\<close> when it is spawned, from the inspect configuration and the image\<close>
  "createArgs config imageName =
     bind_err (get_prop config ''Name'') (\<lambda>name.
     bind_err (case name of JStr n \<Rightarrow> Inr (replace_first CHR ''/'' n) | _ \<Rightarrow> Inl TypeError) (\<lambda>n.
     bind_err (get_prop config ''HostConfig'') (\<lambda>hostConfig.
     bind_err (opt_prop hostConfig ''PortBindings'') (\<lambda>portBindings.
     bind_err (if truthy portBindings
               then forEach_js port_entry
                      [''docker'', ''run'', ''-d'', ''--name'', n, ''--restart'', ''unless-stopped'']
                      (object_entries portBindings)
               else Inr [''docker'', ''run'', ''-d'', ''--name'', n, ''--restart'', ''unless-stopped''])
       (\<lambda>args1.
     bind_err (get_prop config ''Mounts'') (\<lambda>mounts.
     bind_err (if truthy mounts then forEach_val push_mount args1 mounts else Inr args1) (\<lambda>args2.
     bind_err (get_prop config ''Config'') (\<lambda>cfg.
     bind_err (opt_prop cfg ''Env'') (\<lambda>env.
     bind_err (if truthy env then forEach_val push_env args2 env else Inr args2) (\<lambda>args3.
       Inr (args3 @ [imageName])))))))))))"

subsection \<open>upgradeBirdNetGo\<close>

text \<open>
  What the function does to the outside is the sequence of its actions: the commands it
  spawns, the alerts it raises, its own \<^verbatim>\<open>setUpgrading\<close>, and the two refreshes at the end,
  which catch their own exceptions.
\<close>

datatype action =
    Spawn "string list"
  | SpawnSuperuser "string list"    \<comment> \<open>with \<^verbatim>\<open>{ superuser: 'try' }\<close>\<close>
  | Alert string
  | SetUpgrading bool
  | RefreshStatus
  | CheckForUpdates

record app_state =
  dockerStatus :: DockerStatus
  systemdStatus :: SystemdStatus
  containerStatus :: ContainerStatus
  versionInfo :: VersionInfo

definition run_spawn ::
  "host \<Rightarrow> (string list \<Rightarrow> action) \<Rightarrow> string list \<Rightarrow> (string \<Rightarrow> action list \<times> (error + unit))
     \<Rightarrow> action list \<times> (error + unit)" where
  \<comment> \<open>\<^verbatim>\<open>await cockpit.spawn(cmd)\<close>, then the rest with its output\<close>
  "run_spawn h mk cmd rest =
     (case spawn h cmd of
        Inl e \<Rightarrow> ([mk cmd], Inl e)
      | Inr out \<Rightarrow> (case rest out of (acts, r) \<Rightarrow> (mk cmd # acts, r)))"

definition index0 :: "jsval \<Rightarrow> error + jsval" where
  \<comment> \<open>\<^verbatim>\<open>v[0]\<close>\<close>
  "index0 v =
     (case v of
        JUndefined \<Rightarrow> Inl TypeError
      | JNull \<Rightarrow> Inl TypeError
      | JArr xs \<Rightarrow> Inr (case xs of [] \<Rightarrow> JUndefined | x # _ \<Rightarrow> x)
      | JStr s \<Rightarrow> Inr (case s of [] \<Rightarrow> JUndefined | c # _ \<Rightarrow> JStr [c])
      | JObj fs \<Rightarrow> get_prop (JObj fs) ''0''
      | _ \<Rightarrow> Inr JUndefined)"

definition image_tag :: "VersionInfo \<Rightarrow> error + string" where
  \<comment> \<open>\<^verbatim>\<open>versionInfo.current?.includes('nightly')\<close> and the choice of the tag; an array has
      \<^verbatim>\<open>includes\<close> too, a number or an object has not\<close>
  "image_tag v =
     bind_err (case current v of
                 JUndefined \<Rightarrow> Inr False
               | JNull \<Rightarrow> Inr False
               | JStr s \<Rightarrow> Inr (includes_js s ''nightly'')
               | JArr xs \<Rightarrow> Inr (JStr ''nightly'' \<in> set xs)
               | _ \<Rightarrow> Inl TypeError) (\<lambda>isNightly.
       if isNightly then
         Inr (case latestNightly v of
                Some t \<Rightarrow> if t \<noteq> [] then t else ''nightly''
              | None \<Rightarrow> ''nightly'')
       else
         Inr (case latest v of
                Some l \<Rightarrow> if l \<noteq> [] then ''v'' @ l else ''latest''
              | None \<Rightarrow> ''latest''))"

definition recreate_container :: "host \<Rightarrow> string \<Rightarrow> string \<Rightarrow> action list \<times> (error + unit)" where
  \<comment> \<open>the standalone container: stop, inspect, remove, run\<close>
  "recreate_container h containerId imageName =
     run_spawn h Spawn [''docker'', ''stop'', containerId] (\<lambda>_.
     run_spawn h Spawn [''docker'', ''inspect'', containerId] (\<lambda>configJson.
       case JSON_parse h configJson of
         None \<Rightarrow> ([], Inl SyntaxError)
       | Some parsed \<Rightarrow>
           (case index0 parsed of
              Inl e \<Rightarrow> ([], Inl e)
            | Inr config \<Rightarrow>
                run_spawn h Spawn [''docker'', ''rm'', containerId] (\<lambda>_.
                  case createArgs config imageName of
                    Inl e \<Rightarrow> ([], Inl e)
                  | Inr args \<Rightarrow> run_spawn h Spawn args (\<lambda>_. ([], Inr ()))))))"

definition upgrade_try :: "host \<Rightarrow> app_state \<Rightarrow> action list \<times> (error + unit)" where
  \<comment> \<open>the \<^verbatim>\<open>try\<close> block: its actions, and whether it ended by an exception\<close>
  "upgrade_try h st =
     (if \<not> d_available (dockerStatus st) then
        ([Alert ''Docker is not available. Please install Docker to upgrade BirdNET-Go.''], Inr ())
      else if \<not> d_running (dockerStatus st) then
        ([Alert ''Docker service is not running. Please start Docker service first.''], Inr ())
      else
        (case image_tag (versionInfo st) of
           Inl e \<Rightarrow> ([], Inl e)
         | Inr imageTag \<Rightarrow>
             (let imageName = ''ghcr.io/tphakala/birdnet-go:'' @ imageTag in
              run_spawn h Spawn [''docker'', ''pull'', imageName] (\<lambda>_.
                case (if s_exists (systemdStatus st) then
                        run_spawn h SpawnSuperuser [''systemctl'', ''restart'', unit_name]
                          (\<lambda>_. ([], Inr ()))
                      else
                        (case c_containerId (containerStatus st) of
                           None \<Rightarrow> ([], Inr ())
                         | Some containerId \<Rightarrow>
                             if containerId \<noteq> [] then recreate_container h containerId imageName
                             else ([], Inr ()))) of
                  (acts, r) \<Rightarrow>
                    (case r of
                       Inl e \<Rightarrow> (acts, Inl e)
                     | Inr _ \<Rightarrow> (acts @ [RefreshStatus, CheckForUpdates], Inr ()))))))"

definition upgradeBirdNetGo :: "host \<Rightarrow> app_state \<Rightarrow> action list" where
  \<comment> \<open>with the \<^verbatim>\<open>catch\<close>, which alerts, and the \<^verbatim>\<open>finally\<close>\<close>
  "upgradeBirdNetGo h st =
     (case upgrade_try h st of
        (acts, r) \<Rightarrow>
          [SetUpgrading True] @ acts
          @ (case r of
               Inl e \<Rightarrow> [Alert ''Failed to upgrade BirdNET-Go. Please check the logs.'']
             | Inr _ \<Rightarrow> [])
          @ [SetUpgrading False])"

section \<open>Notions the properties are stated with\<close>

subsection \<open>Container listings\<close>

definition listing_well_formed :: "string \<Rightarrow> bool" where
  \<comment> \<open>what \<^verbatim>\<open>docker ps\<close> prints under the format of \<open>ps_command\<close>: nothing, or lines of
      four fields\<close>
  "listing_well_formed containers =
     (trim containers = [] \<or>
      list_all (\<lambda>line. 4 \<le> length (split_on CHR ''|'' line)) (split_on CHR 0x0A (trim containers)))"

subsection \<open>Tags of the registry\<close>

definition embedded_date :: "string \<Rightarrow> nat" where
  \<comment> \<open>the date a tag or a version string carries: its eight digits read in base ten,
      and 0 when it carries none\<close>
  "embedded_date t = (case match_nightly t of Some d \<Rightarrow> digits_value 10 d | None \<Rightarrow> 0)"

definition is_nightly_tag :: "string \<Rightarrow> bool" where
  "is_nightly_tag t = (startsWith t ''nightly-'' \<and> match_nightly t \<noteq> None)"

definition is_string :: "jsval \<Rightarrow> bool" where
  "is_string v = (case v of JStr s \<Rightarrow> True | _ \<Rightarrow> False)"

fun strings_of :: "jsval list \<Rightarrow> string list" where
  "strings_of [] = []"
| "strings_of (JStr s # vs) = s # strings_of vs"
| "strings_of (v # vs) = strings_of vs"

definition version_tags :: "jsval \<Rightarrow> string list" where
  \<comment> \<open>the tags one version record of the registry lists\<close>
  "version_tags version =
     (case tags_of_version version of Inr (JArr ts) \<Rightarrow> strings_of ts | _ \<Rightarrow> [])"

definition registry_nightly_tags :: "jsval list \<Rightarrow> string list" where
  \<comment> \<open>all nightly tags of the registry's answer, in its order\<close>
  "registry_nightly_tags vs = filter is_nightly_tag (concat (map version_tags vs))"

definition version_record_ok :: "jsval \<Rightarrow> bool" where
  \<comment> \<open>a version record the scan reads without an exception: it is not \<^verbatim>\<open>null\<close>, and its
      tags are missing or an array of strings\<close>
  "version_record_ok version =
     (case tags_of_version version of
        Inl e \<Rightarrow> False
      | Inr tags \<Rightarrow>
          \<not> truthy tags \<or> (case tags of JArr ts \<Rightarrow> list_all is_string ts | _ \<Rightarrow> False))"

definition best_so_far :: "scan \<Rightarrow> bool" where
  \<comment> \<open>the invariant of the scan: the date kept is the greatest seen, and the tag kept
      carries it, unless no tag with a date above 0 was seen\<close>
  "best_so_far sc =
     (\<exists>n. latestNightlyDate sc = Val (int n)
        \<and> (\<forall>t \<in> set (foundTags sc). embedded_date t \<le> n)
        \<and> (if n = 0 then latestNightlyTag sc = []
            else latestNightlyTag sc \<in> set (foundTags sc)
                 \<and> embedded_date (latestNightlyTag sc) = n))"

subsection \<open>Log entries\<close>

definition level_of :: "jsval \<Rightarrow> string option" where
  \<comment> \<open>the level of an entry, when it has one that is a string\<close>
  "level_of log = (case get_prop log ''level'' of Inr (JStr s) \<Rightarrow> Some s | _ \<Rightarrow> None)"

definition log_entry_ok :: "jsval \<Rightarrow> bool" where
  \<comment> \<open>an entry the filter reads without an exception: not \<^verbatim>\<open>null\<close>, its level missing,
      \<^verbatim>\<open>null\<close> or a string\<close>
  "log_entry_ok log =
     (case get_prop log ''level'' of
        Inl e \<Rightarrow> False
      | Inr lv \<Rightarrow> lv = JUndefined \<or> lv = JNull \<or> is_string lv)"

definition plain :: "string \<Rightarrow> bool" where
  \<comment> \<open>a string \<^verbatim>\<open>JSON.stringify\<close> writes as it is, between quotes\<close>
  "plain s = list_all (\<lambda>c. escape_char c = [c]) s"

definition kept :: "string \<Rightarrow> string \<Rightarrow> jsval \<Rightarrow> bool" where
  \<comment> \<open>what the two filters let through\<close>
  "kept lf st log =
     ((lf = ''all'' \<or> (case level_of log of Some s \<Rightarrow> toUpperCase s = toUpperCase lf | None \<Rightarrow> False))
      \<and> includes_js (toLowerCase (stringify log)) (toLowerCase st))"

subsection \<open>Inspect configurations and argument lists\<close>

definition not_nullish :: "jsval \<Rightarrow> bool" where
  "not_nullish v = (v \<noteq> JUndefined \<and> v \<noteq> JNull)"

definition port_bindings :: "jsval \<Rightarrow> (string \<times> jsval) list" where
  \<comment> \<open>the port bindings of a configuration: each container port with its host bindings\<close>
  "port_bindings config =
     (case bind_err (get_prop config ''HostConfig'') (\<lambda>hc. opt_prop hc ''PortBindings'') of
        Inr pb \<Rightarrow> if truthy pb then object_entries pb else []
      | Inl e \<Rightarrow> [])"

definition mounts_of :: "jsval \<Rightarrow> jsval list" where
  "mounts_of config = (case get_prop config ''Mounts'' of Inr (JArr ms) \<Rightarrow> ms | _ \<Rightarrow> [])"

definition env_of :: "jsval \<Rightarrow> jsval list" where
  "env_of config =
     (case bind_err (get_prop config ''Config'') (\<lambda>c. opt_prop c ''Env'') of
        Inr (JArr es) \<Rightarrow> es
      | _ \<Rightarrow> [])"

definition array_or_falsy :: "(jsval \<Rightarrow> bool) \<Rightarrow> jsval \<Rightarrow> bool" where
  "array_or_falsy p v = (\<not> truthy v \<or> (case v of JArr xs \<Rightarrow> list_all p xs | _ \<Rightarrow> False))"

definition inspect_shaped :: "jsval \<Rightarrow> bool" where
  \<comment> \<open>a configuration of the shape \<^verbatim>\<open>docker inspect\<close> prints, as far as \<open>createArgs\<close> reads it:
      the name is a string, no binding and no mount is \<^verbatim>\<open>null\<close>, the environment is a list
      of strings\<close>
  "inspect_shaped config =
     ((case get_prop config ''Name'' of Inr (JStr n) \<Rightarrow> True | _ \<Rightarrow> False)
      \<and> list_all (\<lambda>entry. case snd entry of JArr bs \<Rightarrow> list_all not_nullish bs | _ \<Rightarrow> True)
                  (port_bindings config)
      \<and> (case get_prop config ''Mounts'' of
            Inr mounts \<Rightarrow> array_or_falsy not_nullish mounts | Inl e \<Rightarrow> False)
      \<and> (case bind_err (get_prop config ''Config'') (\<lambda>c. opt_prop c ''Env'') of
            Inr env \<Rightarrow> array_or_falsy is_string env | Inl e \<Rightarrow> False))"

fun adjacent :: "'a \<Rightarrow> 'a \<Rightarrow> 'a list \<Rightarrow> bool" where
  \<comment> \<open>the list holds \<open>a\<close> immediately followed by \<open>b\<close>: an option and its value\<close>
  "adjacent a b (x # y # ys) = ((x = a \<and> y = b) \<or> adjacent a b (y # ys))"
| "adjacent a b _ = False"

definition default_env :: "string \<Rightarrow> bool" where
  "default_env e = (startsWith e ''PATH='' \<or> startsWith e ''HOME='')"

definition no_default_env :: "string list \<Rightarrow> bool" where
  "no_default_env args = (\<forall>e. default_env e \<longrightarrow> \<not> adjacent ''-e'' e args)"

definition run_prefix :: "string \<Rightarrow> string list" where
  "run_prefix n = [''docker'', ''run'', ''-d'', ''--name'', n, ''--restart'', ''unless-stopped'']"

definition grows :: "string list \<Rightarrow> string list \<Rightarrow> bool" where
  \<comment> \<open>what every push keeps: the arguments so far, and the absence of a default variable\<close>
  "grows args args' = (prefix args args' \<and> (no_default_env args \<longrightarrow> no_default_env args'))"

section \<open>Example hosts and states\<close>

definition host_down :: host where
  \<comment> \<open>every command fails\<close>
  "host_down =
     \<lparr>spawn = (\<lambda>cmd. Inl SpawnError), JSON_parse = (\<lambda>s. None), hostname = ''localhost''\<rparr>"

definition host_unit_disabled :: host where
  \<comment> \<open>the unit is installed and active but not enabled, so \<^verbatim>\<open>is-enabled\<close> exits non-zero\<close>
  "host_unit_disabled =
     \<lparr>spawn = (\<lambda>cmd.
        if cmd = [''systemctl'', ''list-unit-files'', ''--no-pager'', ''--plain'',
                  ''birdnet-go.service'']
          then Inr ''birdnet-go.service disabled''
        else if cmd = [''systemctl'', ''is-active'', ''birdnet-go.service''] then Inr ''active''
        else Inl SpawnError),
      JSON_parse = (\<lambda>s. None),
      hostname = ''localhost''\<rparr>"

definition host_unit_stopped :: host where
  \<comment> \<open>the unit is installed, neither enabled nor active\<close>
  "host_unit_stopped =
     \<lparr>spawn = (\<lambda>cmd.
        if cmd = [''systemctl'', ''list-unit-files'', ''--no-pager'', ''--plain'',
                  ''birdnet-go.service'']
          then Inr ''birdnet-go.service disabled''
        else Inl SpawnError),
      JSON_parse = (\<lambda>s. None),
      hostname = ''localhost''\<rparr>"

definition host_container_stopped :: host where
  \<comment> \<open>the health endpoint answers healthy while \<^verbatim>\<open>docker ps\<close> lists the container as exited\<close>
  "host_container_stopped =
     \<lparr>spawn = (\<lambda>cmd.
        if cmd = images_command then Inr ''ghcr.io/tphakala/birdnet-go:nightly''
        else if cmd = ps_command
          then Inr ''abc123|ghcr.io/tphakala/birdnet-go:nightly|Exited (0) 2 hours ago|birdnet-go''
        else if cmd = [''curl'', ''-s'', ''-m'', ''2'', ''http://localhost:8080/api/v2/health'']
          then Inr ''health answer''
        else Inl SpawnError),
      JSON_parse = (\<lambda>s. if s = ''health answer''
                          then Some (JObj [(''status'', JStr ''healthy''), (''version'', JStr ''1.2.3'')])
                          else None),
      hostname = ''localhost''\<rparr>"

definition host_ps_fails :: host where
  \<comment> \<open>the health endpoint answers healthy, \<^verbatim>\<open>docker images\<close> succeeds and \<^verbatim>\<open>docker ps\<close> fails\<close>
  "host_ps_fails =
     \<lparr>spawn = (\<lambda>cmd.
        if cmd = images_command then Inr ''ghcr.io/tphakala/birdnet-go:nightly''
        else if cmd = [''curl'', ''-s'', ''-m'', ''2'', ''http://localhost:8080/api/v2/health'']
          then Inr ''health answer''
        else Inl SpawnError),
      JSON_parse = (\<lambda>s. if s = ''health answer''
                          then Some (JObj [(''status'', JStr ''healthy''), (''version'', JStr ''1.2.3'')])
                          else None),
      hostname = ''localhost''\<rparr>"

definition version_with_tags :: "string list \<Rightarrow> jsval" where
  \<comment> \<open>a version record of the registry\<close>
  "version_with_tags ts =
     JObj [(''metadata'', JObj [(''container'', JObj [(''tags'', JArr (map JStr ts))])])]"

definition host_registry :: "jsval \<Rightarrow> host" where
  \<comment> \<open>the registry answers, and its answer parses to the given value\<close>
  "host_registry answer =
     \<lparr>spawn = (\<lambda>cmd. if cmd = registry_command then Inr ''registry answer'' else Inl SpawnError),
      JSON_parse = (\<lambda>s. if s = ''registry answer'' then Some answer else None),
      hostname = ''localhost''\<rparr>"

definition nightly_info :: VersionInfo where
  "nightly_info =
     \<lparr>current = JStr ''nightly-20250831-5-gc2d911f7'', buildDate = JStr ''2025-08-31'',
      latest = None, latestNightly = None, nightlyTags = None,
      updateAvailable = Some False, checkingUpdate = Some False, updateError = None,
      releaseNotes = JUndefined, releaseUrl = JUndefined\<rparr>"

definition stable_info :: VersionInfo where
  "stable_info =
     \<lparr>current = JStr ''v1.2.3'', buildDate = JStr ''2025-08-31'',
      latest = Some ''1.2.2'', latestNightly = None, nightlyTags = None,
      updateAvailable = Some True, checkingUpdate = Some False, updateError = None,
      releaseNotes = JStr ''notes'', releaseUrl = JStr ''url''\<rparr>"

definition docker_stopped_state :: app_state where
  \<comment> \<open>Docker is installed but its service is not running\<close>
  "docker_stopped_state =
     \<lparr>dockerStatus = \<lparr>d_available = True, d_running = False, d_version = Some ''Docker version 27''\<rparr>,
      systemdStatus = systemd_default,
      containerStatus = container_default\<lparr>c_containerId := Some ''abc123''\<rparr>,
      versionInfo = nightly_info\<rparr>"

definition host_log :: host where
  \<comment> \<open>the log file has four lines: two records, a line that is not JSON and a \<^verbatim>\<open>null\<close>\<close>
  "host_log =
     \<lparr>spawn = (\<lambda>cmd.
        if cmd = [''tail'', ''-n'', ''500'', ''/home/thakala/birdnet-go-app/data/logs/analysis.log'']
        then Inr (''first'' @ [CHR 0x0A] @ ''not json'' @ [CHR 0x0A] @ ''null'' @ [CHR 0x0A] @ ''second'' @ [CHR 0x0A])
        else Inl SpawnError),
      JSON_parse = (\<lambda>s.
        if s = ''first'' then Some (JObj [(''level'', JStr ''INFO''), (''msg'', JStr ''started'')])
        else if s = ''second'' then Some (JObj [(''level'', JStr ''ERROR''), (''msg'', JStr ''failed'')])
        else if s = ''null'' then Some JNull
        else None),
      hostname = ''localhost''\<rparr>"

definition example_logs :: "jsval list" where
  "example_logs =
     [JObj [(''time'', JStr ''2025-08-31T10:00:02Z''), (''level'', JStr ''ERROR''),
            (''msg'', JStr ''capture failed'')],
      JObj [(''time'', JStr ''2025-08-31T10:00:01Z''), (''level'', JStr ''INFO''),
            (''msg'', JStr ''started''), (''service'', JStr ''analysis'')],
      JObj [(''time'', JStr ''2025-08-31T10:00:00Z''), (''level'', JStr ''DEBUG''),
            (''msg'', JStr ''detection''), (''species'', JStr ''Parus major'')]]"

definition example_config :: jsval where
  \<comment> \<open>a container with port 8080:8080, the bind mount /data:/data, a named volume, and
      the variables FOO, PATH and HOME\<close>
  "example_config =
     JObj [(''Name'', JStr ''/birdnet-go''),
           (''HostConfig'',
              JObj [(''PortBindings'',
                       JObj [(''8080/tcp'',
                                JArr [JObj [(''HostIp'', JStr []), (''HostPort'', JStr ''8080'')]])])]),
           (''Mounts'',
              JArr [JObj [(''Type'', JStr ''bind''), (''Source'', JStr ''/data''),
                          (''Destination'', JStr ''/data'')],
                    JObj [(''Type'', JStr ''volume''), (''Source'', JStr ''/var/lib/docker/volumes/c''),
                          (''Destination'', JStr ''/cache'')]]),
           (''Config'',
              JObj [(''Env'', JArr [JStr ''FOO=bar'', JStr ''PATH=/usr/bin'', JStr ''HOME=/root''])])]"

definition host_upgrade :: host where
  \<comment> \<open>every command succeeds, and \<^verbatim>\<open>docker inspect\<close> describes the example container\<close>
  "host_upgrade =
     \<lparr>spawn = (\<lambda>cmd. if cmd = [''docker'', ''inspect'', ''abc123'']
                      then Inr ''inspect answer'' else Inr []),
      JSON_parse = (\<lambda>s. if s = ''inspect answer'' then Some (JArr [example_config]) else None),
      hostname = ''localhost''\<rparr>"

definition standalone_state :: app_state where
  \<comment> \<open>Docker runs, there is no unit, and the container \<^verbatim>\<open>abc123\<close> is a nightly build\<close>
  "standalone_state =
     \<lparr>dockerStatus = \<lparr>d_available = True, d_running = True, d_version = Some ''Docker version 27''\<rparr>,
      systemdStatus = systemd_default,
      containerStatus =
        \<lparr>c_exists = True, c_running = True, c_imagePresent = True,
         c_containerId = Some ''abc123'', c_status = Some ''Up 2 hours''\<rparr>,
      versionInfo = nightly_info\<rparr>"


section \<open>Properties of the status probes\<close>

lemma isBirdnetLine_total:
  "2 \<le> length (split_on CHR ''|'' line) \<Longrightarrow> \<exists>b. isBirdnetLine line = Inr b"
  by (auto simp: isBirdnetLine_def nth_opt_def Let_def)

lemma find_js_lines:
  "list_all (\<lambda>line. 4 \<le> length (split_on CHR ''|'' line)) ls \<Longrightarrow>
   find_js isBirdnetLine ls = Inr None
   \<or> (\<exists>l \<in> set ls. find_js isBirdnetLine ls = Inr (Some l) \<and> isBirdnetLine l = Inr True)"
proof (induction ls)
  case Nil
  then show ?case by simp
next
  case (Cons l ls)
  then have "2 \<le> length (split_on CHR ''|'' l)" by simp
  then obtain b where b: "isBirdnetLine l = Inr b"
    using isBirdnetLine_total by blast
  show ?case
  proof (cases b)
    case True
    with b show ?thesis by simp
  next
    case False
    with b Cons show ?thesis by auto
  qed
qed

lemma health_running:
  assumes "spawn h [''curl'', ''-s'', ''-m'', ''2'',
                    ''http://'' @ hostname h @ '':8080/api/v2/health''] = Inr result"
    and "result \<noteq> []"
    and "JSON_parse h result = Some payload"
    and "get_prop payload ''status'' = Inr (JStr s)"
    and "s = ''healthy'' \<or> s = ''degraded''"
  shows "healthSaysRunning h"
  using assms by (auto simp: healthSaysRunning_def health_url_def)

text \<open>
  Claim C1, as the source has it. Let \<^verbatim>\<open>docker images\<close> and \<^verbatim>\<open>docker ps\<close> succeed, the
  listing of \<^verbatim>\<open>docker ps\<close> have the four fields per line its format prints, and the
  health endpoint answer with a payload whose \<^verbatim>\<open>status\<close> is \<^verbatim>\<open>healthy\<close> or \<^verbatim>\<open>degraded\<close>.
  Then \<^verbatim>\<open>checkBirdNetGoStatus\<close> reports \<^verbatim>\<open>running = true\<close> whatever the listing says, and no
  exception reaches its handler. The status string is the one Docker gives for the
  matched container (also when that container is stopped),
  \<^verbatim>\<open>Running (non-Docker or custom container)\<close> when no line matches, and
  \<^verbatim>\<open>Running (non-Docker)\<close> when the listing is empty.
\<close>

theorem health_takes_precedence:
  assumes images: "spawn h images_command = Inr images"
    and health: "spawn h [''curl'', ''-s'', ''-m'', ''2'',
                          ''http://'' @ hostname h @ '':8080/api/v2/health''] = Inr result"
    and nonempty: "result \<noteq> []"
    and payload: "JSON_parse h result = Some payload"
    and status: "get_prop payload ''status'' = Inr (JStr s)"
    and running: "s = ''healthy'' \<or> s = ''degraded''"
    and ps: "spawn h ps_command = Inr containers"
    and wf: "listing_well_formed containers"
  shows "\<exists>st. checkBirdNetGoStatus_try h = Inr st \<and> checkBirdNetGoStatus h = st
            \<and> c_running st \<and> c_exists st
            \<and> (c_status st = Some ''Running (non-Docker)'' \<and> trim containers = []
               \<or> c_status st = Some ''Running (non-Docker or custom container)''
                  \<and> find_js isBirdnetLine (split_on CHR 0x0A (trim containers)) = Inr None
               \<or> (\<exists>line status.
                     find_js isBirdnetLine (split_on CHR 0x0A (trim containers)) = Inr (Some line)
                     \<and> nth_opt (split_on CHR ''|'' line) 2 = Some status
                     \<and> c_status st = Some status))"
proof -
  have run: "healthSaysRunning h"
    using health nonempty payload status running by (rule health_running)
  show ?thesis
  proof (cases "trim containers = []")
    case True
    with images ps run show ?thesis
      by (simp add: checkBirdNetGoStatus_def checkBirdNetGoStatus_try_def)
  next
    case False
    with wf have lines: "list_all (\<lambda>line. 4 \<le> length (split_on CHR ''|'' line))
                          (split_on CHR 0x0A (trim containers))"
      by (simp add: listing_well_formed_def)
    from find_js_lines [OF lines] show ?thesis
    proof
      assume "find_js isBirdnetLine (split_on CHR 0x0A (trim containers)) = Inr None"
      with images ps run False show ?thesis
        by (simp add: checkBirdNetGoStatus_def checkBirdNetGoStatus_try_def)
    next
      assume "\<exists>l \<in> set (split_on CHR 0x0A (trim containers)).
                find_js isBirdnetLine (split_on CHR 0x0A (trim containers)) = Inr (Some l)
                \<and> isBirdnetLine l = Inr True"
      then obtain l where l: "l \<in> set (split_on CHR 0x0A (trim containers))"
        and found: "find_js isBirdnetLine (split_on CHR 0x0A (trim containers)) = Inr (Some l)"
        by blast
      from l lines have len: "4 \<le> length (split_on CHR ''|'' l)"
        by (simp add: list_all_iff)
      then have "l \<noteq> []" by auto
      moreover from len have "nth_opt (split_on CHR ''|'' l) 2 = Some (split_on CHR ''|'' l ! 2)"
        by (simp add: nth_opt_def)
      ultimately show ?thesis
        using images ps run False found
        by (simp add: checkBirdNetGoStatus_def checkBirdNetGoStatus_try_def Let_def)
    qed
  qed
qed

lemma container_stopped_status:
  "checkBirdNetGoStatus host_container_stopped =
     \<lparr>c_exists = True, c_running = True, c_imagePresent = True,
      c_containerId = Some ''abc123'', c_status = Some ''Exited (0) 2 hours ago''\<rparr>"
  by (simp add: checkBirdNetGoStatus_def checkBirdNetGoStatus_try_def healthSaysRunning_def
      health_url_def host_container_stopped_def images_command_def ps_command_def
      image_prefix_def isBirdnetLine_def nth_opt_def trim_def is_ws_def startsWith_def Let_def)

theorem health_takes_precedence_witness:
  "listing_well_formed
     ''abc123|ghcr.io/tphakala/birdnet-go:nightly|Exited (0) 2 hours ago|birdnet-go''
   \<and> \<not> startsWith ''Exited (0) 2 hours ago'' ''Up''
   \<and> c_running (checkBirdNetGoStatus host_container_stopped)
   \<and> c_status (checkBirdNetGoStatus host_container_stopped) = Some ''Exited (0) 2 hours ago''"
proof -
  let ?listing = "''abc123|ghcr.io/tphakala/birdnet-go:nightly|Exited (0) 2 hours ago|birdnet-go''"
  let ?payload = "JObj [(''status'', JStr ''healthy''), (''version'', JStr ''1.2.3'')]"
  have images: "spawn host_container_stopped images_command
                  = Inr ''ghcr.io/tphakala/birdnet-go:nightly''"
    by (simp add: host_container_stopped_def)
  have health: "spawn host_container_stopped
                  [''curl'', ''-s'', ''-m'', ''2'',
                   ''http://'' @ hostname host_container_stopped @ '':8080/api/v2/health'']
                  = Inr ''health answer''"
    by (simp add: host_container_stopped_def images_command_def ps_command_def)
  have payload: "JSON_parse host_container_stopped ''health answer'' = Some ?payload"
    by (simp add: host_container_stopped_def)
  have status: "get_prop ?payload ''status'' = Inr (JStr ''healthy'')"
    by simp
  have ps: "spawn host_container_stopped ps_command = Inr ?listing"
    by (simp add: host_container_stopped_def images_command_def ps_command_def)
  have wf: "listing_well_formed ?listing"
    by (simp add: listing_well_formed_def trim_def is_ws_def)
  have "\<exists>st. checkBirdNetGoStatus host_container_stopped = st \<and> c_running st"
    using health_takes_precedence [OF images health _ payload status _ ps wf] by auto
  then show ?thesis
    using wf by (simp add: container_stopped_status startsWith_def)
qed

text \<open>
  The claim as the specification words it fails when the container engine itself
  fails: \<^verbatim>\<open>docker images\<close> and \<^verbatim>\<open>docker ps\<close> are awaited inside the outer \<^verbatim>\<open>try\<close>, so on a
  host whose health endpoint answers \<^verbatim>\<open>healthy\<close> and whose \<^verbatim>\<open>docker ps\<close> exits non-zero
  the handler sets the default record, with \<^verbatim>\<open>running = false\<close>.
\<close>

theorem docker_failure_overrides_health:
  "healthSaysRunning host_ps_fails
   \<and> spawn host_ps_fails images_command = Inr ''ghcr.io/tphakala/birdnet-go:nightly''
   \<and> spawn host_ps_fails ps_command = Inl SpawnError
   \<and> checkBirdNetGoStatus_try host_ps_fails = Inl SpawnError
   \<and> checkBirdNetGoStatus host_ps_fails = container_default
   \<and> \<not> c_running (checkBirdNetGoStatus host_ps_fails)"
  by (simp add: checkBirdNetGoStatus_def checkBirdNetGoStatus_try_def healthSaysRunning_def
      health_url_def host_ps_fails_def images_command_def ps_command_def container_default_def)

lemma systemd_unit_disabled_status:
  "checkSystemdStatus host_unit_disabled =
     \<lparr>s_exists = True, s_running = True, s_enabled = False, s_status = Some ''active''\<rparr>"
  by (simp add: host_unit_disabled_def checkSystemdStatus_def checkSystemdStatus_try_def
      unit_name_def startsWith_def trim_def is_ws_def)

text \<open>
  Claim C9, as the source has it. No probe lets an exception out: whatever ends its
  \<^verbatim>\<open>try\<close> block gives the default record. That is the case when either check of the
  Docker probe fails, when \<^verbatim>\<open>list-unit-files\<close> fails in the systemd probe, and when
  \<^verbatim>\<open>docker images\<close> or \<^verbatim>\<open>docker ps\<close> fails in the application probe. A failure of
  \<^verbatim>\<open>is-enabled\<close> or \<^verbatim>\<open>is-active\<close> is caught where it happens and only sets its own
  field: with both failing, the unit is still reported as existing, inactive.
\<close>

theorem probes_degrade:
  "(spawn h [''docker'', ''--version''] = Inl e1
      \<or> spawn h [''systemctl'', ''is-active'', ''docker''] = Inl e2
      \<longrightarrow> checkDockerStatus h = \<lparr>d_available = False, d_running = False, d_version = None\<rparr>)
   \<and> (checkDockerStatus_try h = Inl e1 \<longrightarrow> checkDockerStatus h = docker_default)
   \<and> (spawn h [''systemctl'', ''list-unit-files'', ''--no-pager'', ''--plain'',
                ''birdnet-go.service''] = Inl e1
      \<longrightarrow> checkSystemdStatus h =
          \<lparr>s_exists = False, s_running = False, s_enabled = False, s_status = None\<rparr>)
   \<and> (checkSystemdStatus_try h = Inl e1 \<longrightarrow> checkSystemdStatus h = systemd_default)
   \<and> (spawn h images_command = Inl e1 \<or> spawn h ps_command = Inl e2
      \<longrightarrow> checkBirdNetGoStatus h =
          \<lparr>c_exists = False, c_running = False, c_imagePresent = False,
           c_containerId = None, c_status = None\<rparr>)
   \<and> (checkBirdNetGoStatus_try h = Inl e1 \<longrightarrow> checkBirdNetGoStatus h = container_default)
   \<and> (spawn h [''systemctl'', ''list-unit-files'', ''--no-pager'', ''--plain'',
                ''birdnet-go.service''] = Inr out
        \<and> includes_js out ''birdnet-go.service''
        \<and> spawn h [''systemctl'', ''is-enabled'', ''birdnet-go.service''] = Inl e1
        \<and> spawn h [''systemctl'', ''is-active'', ''birdnet-go.service''] = Inl e2
      \<longrightarrow> checkSystemdStatus h =
          \<lparr>s_exists = True, s_running = False, s_enabled = False, s_status = Some ''inactive''\<rparr>)"
  by (auto simp: checkDockerStatus_def checkDockerStatus_try_def docker_default_def
      checkSystemdStatus_def checkSystemdStatus_try_def systemd_default_def unit_name_def
      checkBirdNetGoStatus_def checkBirdNetGoStatus_try_def container_default_def
      split: sum.splits)

theorem probes_degrade_witness:
  "spawn host_down [''docker'', ''--version''] = Inl SpawnError
   \<and> checkDockerStatus host_down = \<lparr>d_available = False, d_running = False, d_version = None\<rparr>
   \<and> checkSystemdStatus host_down = systemd_default
   \<and> checkBirdNetGoStatus host_down = container_default
   \<and> checkSystemdStatus host_unit_stopped =
       \<lparr>s_exists = True, s_running = False, s_enabled = False, s_status = Some ''inactive''\<rparr>"
proof -
  have down: "spawn host_down cmd = Inl SpawnError" for cmd
    by (simp add: host_down_def)
  have listed: "spawn host_unit_stopped [''systemctl'', ''list-unit-files'', ''--no-pager'',
                  ''--plain'', ''birdnet-go.service''] = Inr ''birdnet-go.service disabled''"
    and failing: "spawn host_unit_stopped [''systemctl'', ''is-enabled'', ''birdnet-go.service'']
                    = Inl SpawnError"
      "spawn host_unit_stopped [''systemctl'', ''is-active'', ''birdnet-go.service'']
                    = Inl SpawnError"
    by (simp_all add: host_unit_stopped_def)
  have named: "includes_js ''birdnet-go.service disabled'' ''birdnet-go.service''"
    by (simp add: startsWith_def)
  have degraded: "checkDockerStatus host_down
                    = \<lparr>d_available = False, d_running = False, d_version = None\<rparr>
                  \<and> checkSystemdStatus host_down = systemd_default
                  \<and> checkBirdNetGoStatus host_down = container_default"
    using probes_degrade [of host_down SpawnError SpawnError] down
    by (simp add: systemd_default_def container_default_def)
  have stopped: "checkSystemdStatus host_unit_stopped =
       \<lparr>s_exists = True, s_running = False, s_enabled = False, s_status = Some ''inactive''\<rparr>"
    using probes_degrade [of host_unit_stopped SpawnError SpawnError
        "''birdnet-go.service disabled''"] listed failing named
    by (simp del: includes_js.simps)
  show ?thesis
    using degraded stopped down by simp
qed

text \<open>
  The claim as the specification words it fails: on a host whose unit is active but not
  enabled, \<^verbatim>\<open>is-enabled\<close> fails and the systemd probe still reports the unit as existing
  and running.
\<close>

theorem systemd_probe_keeps_unit:
  "spawn host_unit_disabled [''systemctl'', ''is-enabled'', ''birdnet-go.service''] = Inl SpawnError
   \<and> checkSystemdStatus host_unit_disabled =
       \<lparr>s_exists = True, s_running = True, s_enabled = False, s_status = Some ''active''\<rparr>
   \<and> checkSystemdStatus host_unit_disabled \<noteq> systemd_default"
  by (simp add: systemd_unit_disabled_status systemd_default_def) (simp add: host_unit_disabled_def)


section \<open>Properties of the version reconciler\<close>

subsection \<open>parseInt on a string of digits\<close>

lemma dec_digit_cases:
  "is_digit_in 10 c \<Longrightarrow> c \<in> set ''0123456789''"
  by (simp add: is_digit_in_def digit_table_def split: if_splits)

lemma parseInt_digits:
  assumes "d \<noteq> []" and "list_all (is_digit_in 10) d"
  shows "parseInt d = Val (int (digits_value 10 d))"
proof -
  from assms obtain c cs where d: "d = c # cs" by (cases d) auto
  with assms have "is_digit_in 10 c" by simp
  then have c: "c \<in> set ''0123456789''"
    by (rule dec_digit_cases)
  then have nows: "\<not> is_ws c" and nosign: "c \<noteq> CHR ''-''" "c \<noteq> CHR ''+''"
    by (auto simp: is_ws_def)
  have nox: "\<not> startsWith d ''0x''" "\<not> startsWith d ''0X''"
  proof -
    show "\<not> startsWith d ''0x''"
    proof
      assume "startsWith d ''0x''"
      then obtain r where "d = CHR ''0'' # CHR ''x'' # r"
        by (cases d; cases "tl d") (auto simp: startsWith_def)
      with assms have "is_digit_in 10 CHR ''x''" by simp
      then show False by (simp add: is_digit_in_def digit_table_def)
    qed
    show "\<not> startsWith d ''0X''"
    proof
      assume "startsWith d ''0X''"
      then obtain r where "d = CHR ''0'' # CHR ''X'' # r"
        by (cases d; cases "tl d") (auto simp: startsWith_def)
      with assms have "is_digit_in 10 CHR ''X''" by simp
      then show False by (simp add: is_digit_in_def digit_table_def)
    qed
  qed
  have tw: "takeWhile (is_digit_in 10) d = d"
    using assms(2) by (simp add: list_all_iff)
  have "dropWhile is_ws d = d" using d nows by simp
  moreover have "\<not> startsWith d ''-''" "\<not> startsWith d ''+''"
    using d nosign by (simp_all add: startsWith_def)
  ultimately show ?thesis
    using nox assms(1) by (simp add: parseInt_def parse_digits_def Let_def tw del: takeWhile_eq_all_conv)
qed

subsection \<open>Stable versions\<close>

lemma split_on_no_separator: "c \<notin> set s \<Longrightarrow> split_on c s = [s]"
  by (induction s) auto

lemma split_on_at_separator:
  "c \<notin> set s \<Longrightarrow> split_on c (s @ c # rest) = s # split_on c rest"
  by (induction s) auto

lemma dot_is_no_digit: "list_all (is_digit_in 10) s \<Longrightarrow> CHR ''.'' \<notin> set s"
  by (auto simp: list_all_iff is_digit_in_def digit_table_def)

lemma or_zero_Val: "or_zero (Val k) = Val k"
  by (simp add: or_zero_def)

lemma parseVersion_three_components:
  assumes "a \<noteq> []" "list_all (is_digit_in 10) a"
    and "b \<noteq> []" "list_all (is_digit_in 10) b"
    and "c \<noteq> []" "list_all (is_digit_in 10) c"
  shows "parseVersion (a @ ''.'' @ b @ ''.'' @ c) =
           Val (int (digits_value 10 a) * 10000 + int (digits_value 10 b) * 100
                + int (digits_value 10 c))"
proof -
  have "split_on CHR ''.'' (a @ ''.'' @ b @ ''.'' @ c) = [a, b, c]"
    using assms(2,4,6)
    by (simp add: split_on_at_separator split_on_no_separator dot_is_no_digit)
  then show ?thesis
    using assms
    by (simp add: parseVersion_def parseInt_digits or_zero_Val nth_num_def nth_opt_def)
qed

lemma parseVersion_two_components:
  assumes "list_all (is_digit_in 10) a" and "list_all (is_digit_in 10) b"
  shows "parseVersion (a @ ''.'' @ b) = NaN"
proof -
  have "split_on CHR ''.'' (a @ ''.'' @ b) = [a, b]"
    using assms by (simp add: split_on_at_separator split_on_no_separator dot_is_no_digit)
  then show ?thesis
    by (simp add: parseVersion_def nth_num_def nth_opt_def)
qed


lemma parseVersion_ordering:
  "parseVersion ''1.2.3'' = Val 10203 \<and> parseVersion ''1.3.0'' = Val 10300
   \<and> parseVersion ''2.0.0'' = Val 20000
   \<and> num_gt (parseVersion ''1.3.0'') (parseVersion ''1.2.3'')
   \<and> num_gt (parseVersion ''2.0.0'') (parseVersion ''1.3.0'')"
  by code_simp

lemma parseVersion_non_numeric:
  "parseVersion ''1.x.3'' = Val 10003 \<and> parseVersion ''1..3'' = Val 10003"
  by code_simp

text \<open>
  Claim C2. A version of three numeric components maps to the weighted sum, the ordering
  of the three versions holds and a component that is not a number counts as 0 (the
  lemmas above), and \<^verbatim>\<open>parseVersion("1.2")\<close> does not throw. But a
  component that is absent is not defaulted: \<^verbatim>\<open>|| 0\<close> is applied to the components the
  split returns, \<^verbatim>\<open>parts[2]\<close> is \<^verbatim>\<open>undefined\<close> for \<^verbatim>\<open>"1.2"\<close>, and the sum is \<^verbatim>\<open>NaN\<close>,
  which is neither the value of \<^verbatim>\<open>"1.2.0"\<close> nor smaller than the value of a later version.
\<close>

theorem parseVersion_missing_patch:
  "parseVersion ''1.2'' = NaN \<and> parseVersion ''1.2.0'' = Val 10200
   \<and> parseVersion ''1.2'' \<noteq> parseVersion ''1.2.0''
   \<and> \<not> num_gt (parseVersion ''1.2.1'') (parseVersion ''1.2'')"
  by code_simp

subsection \<open>Dates and the sort\<close>

lemma match_nightly_digits:
  "match_nightly s = Some d \<Longrightarrow> length d = 8 \<and> list_all (is_digit_in 10) d"
  by (induction s) (auto simp: Let_def split: if_splits)

lemma parseInt_match:
  "match_nightly s = Some d \<Longrightarrow> parseInt d = Val (int (digits_value 10 d))"
proof -
  assume "match_nightly s = Some d"
  then have "length d = 8" and "list_all (is_digit_in 10) d"
    using match_nightly_digits by blast+
  moreover from \<open>length d = 8\<close> have "d \<noteq> []" by auto
  ultimately show ?thesis by (simp add: parseInt_digits)
qed

lemma parseInt_zero: "parseInt ''0'' = Val 0"
  by code_simp

lemma tag_date_embedded: "tag_date t = Val (int (embedded_date t))"
  by (cases "match_nightly t")
     (simp_all add: tag_date_def embedded_date_def parseInt_zero parseInt_match)

lemma current_date_embedded: "current_date cv = Val (int (embedded_date cv))"
  by (cases "match_nightly cv")
     (simp_all add: current_date_def embedded_date_def parseInt_match)

lemma newest_first_gt:
  "num_gt (newest_first x y) (Val 0) \<longleftrightarrow> embedded_date x < embedded_date y"
  by (simp add: newest_first_def tag_date_embedded)

lemma set_insert_by: "set (insert_by cmp x ys) = insert x (set ys)"
  by (induction ys) auto

lemma sorted_insert_by:
  "sorted_wrt (\<lambda>a b. embedded_date b \<le> embedded_date a) ys \<Longrightarrow>
   sorted_wrt (\<lambda>a b. embedded_date b \<le> embedded_date a) (insert_by newest_first x ys)"
  by (induction ys) (auto simp: newest_first_gt set_insert_by)

lemma set_sort_js: "set (sort_js cmp xs) = set xs"
  by (induction xs) (simp_all add: sort_js_def set_insert_by)

lemma length_insert_by: "length (insert_by cmp x ys) = Suc (length ys)"
  by (induction ys) auto

lemma sorted_sort_js:
  "sorted_wrt (\<lambda>a b. embedded_date b \<le> embedded_date a) (sort_js newest_first xs)"
proof (induction xs)
  case Nil
  show ?case by (simp add: sort_js_def)
next
  case (Cons x xs)
  then show ?case
    using sorted_insert_by [of "sort_js newest_first xs" x] by (simp add: sort_js_def)
qed

lemma sorted_wrt_take_js:
  "sorted_wrt P xs \<Longrightarrow> sorted_wrt P (take n xs)"
  by (metis append_take_drop_id sorted_wrt_append)

lemma scan_tag_step:
  assumes "best_so_far sc"
  shows "\<exists>sc'. scan_tag sc (JStr tag) = Inr sc'
           \<and> foundTags sc' = foundTags sc @ filter is_nightly_tag [tag]
           \<and> best_so_far sc'"
proof (cases "is_nightly_tag tag")
  case False
  with assms show ?thesis by (auto simp: scan_tag_def is_nightly_tag_def)
next
  case True
  then obtain d where d: "match_nightly tag = Some d" and sw: "startsWith tag ''nightly-''"
    by (auto simp: is_nightly_tag_def)
  have date: "parseInt d = Val (int (embedded_date tag))"
    using d by (simp add: embedded_date_def parseInt_match)
  from assms obtain n where n: "latestNightlyDate sc = Val (int n)"
    "\<forall>t \<in> set (foundTags sc). embedded_date t \<le> n"
    "if n = 0 then latestNightlyTag sc = []
     else latestNightlyTag sc \<in> set (foundTags sc) \<and> embedded_date (latestNightlyTag sc) = n"
    by (auto simp: best_so_far_def)
  show ?thesis
  proof (cases "n < embedded_date tag")
    case True
    then have "scan_tag sc (JStr tag) =
        Inr (sc\<lparr>foundTags := foundTags sc @ [tag], latestNightlyDate := Val (int (embedded_date tag)),
                 latestNightlyTag := tag\<rparr>)"
      using d sw date n(1) by (simp add: scan_tag_def Let_def)
    moreover have "best_so_far (sc\<lparr>foundTags := foundTags sc @ [tag],
        latestNightlyDate := Val (int (embedded_date tag)), latestNightlyTag := tag\<rparr>)"
      unfolding best_so_far_def using True n(2)
      by (intro exI [of _ "embedded_date tag"]) auto
    ultimately show ?thesis using \<open>is_nightly_tag tag\<close> by simp
  next
    case False
    then have "scan_tag sc (JStr tag) = Inr (sc\<lparr>foundTags := foundTags sc @ [tag]\<rparr>)"
      using d sw date n(1) by (simp add: scan_tag_def Let_def)
    moreover have "best_so_far (sc\<lparr>foundTags := foundTags sc @ [tag]\<rparr>)"
      unfolding best_so_far_def using False n
      by (intro exI [of _ n]) (auto split: if_splits)
    ultimately show ?thesis using \<open>is_nightly_tag tag\<close> by simp
  qed
qed

lemma scan_tags:
  "best_so_far sc \<Longrightarrow> list_all is_string ts \<Longrightarrow>
   \<exists>sc'. forEach_js scan_tag sc ts = Inr sc'
      \<and> foundTags sc' = foundTags sc @ filter is_nightly_tag (strings_of ts)
      \<and> best_so_far sc'"
proof (induction ts arbitrary: sc)
  case Nil
  then show ?case by simp
next
  case (Cons t ts)
  then obtain tag where t: "t = JStr tag" by (cases t) (auto simp: is_string_def)
  from scan_tag_step [OF Cons.prems(1), of tag] obtain sc1 where
    sc1: "scan_tag sc (JStr tag) = Inr sc1"
      "foundTags sc1 = foundTags sc @ filter is_nightly_tag [tag]" "best_so_far sc1"
    by blast
  from Cons.IH [OF sc1(3)] Cons.prems(2) obtain sc' where
    "forEach_js scan_tag sc1 ts = Inr sc'"
    "foundTags sc' = foundTags sc1 @ filter is_nightly_tag (strings_of ts)" "best_so_far sc'"
    by auto
  with sc1 t show ?case by simp
qed

lemma scan_version_step:
  assumes "best_so_far sc" and "version_record_ok version"
  shows "\<exists>sc'. scan_version sc version = Inr sc'
           \<and> foundTags sc' = foundTags sc @ filter is_nightly_tag (version_tags version)
           \<and> best_so_far sc'"
proof -
  from assms(2) obtain tags where tags: "tags_of_version version = Inr tags"
    and shape: "\<not> truthy tags \<or> (\<exists>ts. tags = JArr ts \<and> list_all is_string ts)"
    by (auto simp: version_record_ok_def split: sum.splits jsval.splits)
  show ?thesis
  proof (cases "\<exists>ts. tags = JArr ts")
    case True
    then obtain ts where ts: "tags = JArr ts" by blast
    with shape have "list_all is_string ts" by simp
    from scan_tags [OF assms(1) this] ts tags show ?thesis
      by (simp add: scan_version_def version_tags_def)
  next
    case False
    with shape have "\<not> truthy tags" by blast
    with False tags assms(1) show ?thesis
      by (cases tags) (simp_all add: scan_version_def version_tags_def)
  qed
qed

lemma scan_versions:
  "best_so_far sc \<Longrightarrow> list_all version_record_ok vs \<Longrightarrow>
   \<exists>sc'. forEach_js scan_version sc vs = Inr sc'
      \<and> foundTags sc' = foundTags sc @ registry_nightly_tags vs
      \<and> best_so_far sc'"
proof (induction vs arbitrary: sc)
  case Nil
  then show ?case by (simp add: registry_nightly_tags_def)
next
  case (Cons v vs)
  from scan_version_step [OF Cons.prems(1), of v] Cons.prems(2) obtain sc1 where
    sc1: "scan_version sc v = Inr sc1"
      "foundTags sc1 = foundTags sc @ filter is_nightly_tag (version_tags v)" "best_so_far sc1"
    by auto
  from Cons.IH [OF sc1(3)] Cons.prems(2) obtain sc' where
    "forEach_js scan_version sc1 vs = Inr sc'"
    "foundTags sc' = foundTags sc1 @ registry_nightly_tags vs" "best_so_far sc'"
    by auto
  with sc1 show ?case by (simp add: registry_nightly_tags_def)
qed

lemma best_so_far_start: "best_so_far scan_start"
  by (simp add: best_so_far_def scan_start_def)

lemma scan_registry:
  assumes "list_all version_record_ok vs"
  shows "\<exists>sc. forEach_js scan_version scan_start vs = Inr sc
           \<and> foundTags sc = registry_nightly_tags vs \<and> best_so_far sc"
  using scan_versions [OF best_so_far_start assms] by (simp add: scan_start_def)

lemma nightly_tag_nonempty: "is_nightly_tag t \<Longrightarrow> t \<noteq> []"
  by (auto simp: is_nightly_tag_def startsWith_def)

lemma length_sort_js: "length (sort_js cmp xs) = length xs"
  by (induction xs) (simp_all add: sort_js_def length_insert_by)

lemma nightly_selection:
  assumes "best_so_far sc" and "foundTags sc = ms" and "\<forall>t \<in> set ms. is_nightly_tag t"
  shows "if \<exists>t \<in> set ms. 0 < embedded_date t
         then \<exists>t \<in> set ms. latestNightly (nightly_result (Val (int cd)) sc p) = Some t
                \<and> (\<forall>u \<in> set ms. embedded_date u \<le> embedded_date t)
                \<and> updateAvailable (nightly_result (Val (int cd)) sc p) = Some (cd < embedded_date t)
         else latestNightly (nightly_result (Val (int cd)) sc p) = Some ''nightly''
                \<and> updateAvailable (nightly_result (Val (int cd)) sc p) = Some False"
proof -
  from assms(1,2) obtain n where n: "latestNightlyDate sc = Val (int n)"
    "\<forall>t \<in> set ms. embedded_date t \<le> n"
    "if n = 0 then latestNightlyTag sc = []
     else latestNightlyTag sc \<in> set ms \<and> embedded_date (latestNightlyTag sc) = n"
    by (auto simp: best_so_far_def)
  show ?thesis
  proof (cases "n = 0")
    case True
    with n have "\<not> (\<exists>t \<in> set ms. 0 < embedded_date t)" by auto
    moreover from True n have "latestNightlyTag sc = []" by simp
    ultimately show ?thesis using True n(1) by (simp add: nightly_result_def Let_def)
  next
    case False
    with n have tag: "latestNightlyTag sc \<in> set ms" "embedded_date (latestNightlyTag sc) = n"
      by auto
    with assms(3) have "latestNightlyTag sc \<noteq> []" using nightly_tag_nonempty by blast
    moreover from False tag have "\<exists>t \<in> set ms. 0 < embedded_date t" by auto
    ultimately show ?thesis using tag n(1,2)
      by (auto simp: nightly_result_def Let_def)
  qed
qed


text \<open>
  Claim C3, as the source has it. The current version is a string that still contains
  \<^verbatim>\<open>nightly\<close> once its first \<^verbatim>\<open>v\<close> is removed; the registry answers with a text that is
  not empty and parses to an array of version records, each with its tags missing or an
  array of strings. The nightly tags are the tags that start with \<^verbatim>\<open>nightly-\<close> and carry
  an eight-digit date. When one of them carries a date above 0, \<^verbatim>\<open>latestNightly\<close> is a
  nightly tag whose date is the greatest, and \<^verbatim>\<open>updateAvailable\<close> says whether that date
  is greater than the date of the current version. Otherwise \<^verbatim>\<open>latestNightly\<close> is the
  word \<^verbatim>\<open>nightly\<close> and \<^verbatim>\<open>updateAvailable\<close> is false. Both copies of the function agree.
\<close>

theorem nightly_selects_latest:
  assumes "current seen = JStr v" and "includes_js (replace_first CHR ''v'' v) ''nightly''"
    and "spawn h registry_command = Inr out" and "out \<noteq> []"
    and "JSON_parse h out = Some (JArr vs)" and "list_all version_record_ok vs"
  shows "\<exists>r. checkForUpdates h seen prev = r
           \<and> latestNightly (checkForUpdates_ref h seen prev) = latestNightly r
           \<and> updateAvailable (checkForUpdates_ref h seen prev) = updateAvailable r
           \<and> (if \<exists>t \<in> set (registry_nightly_tags vs). 0 < embedded_date t
               then \<exists>t \<in> set (registry_nightly_tags vs). latestNightly r = Some t
                      \<and> (\<forall>u \<in> set (registry_nightly_tags vs). embedded_date u \<le> embedded_date t)
                      \<and> updateAvailable r
                          = Some (embedded_date (replace_first CHR ''v'' v) < embedded_date t)
               else latestNightly r = Some ''nightly'' \<and> updateAvailable r = Some False)"
proof -
  let ?cd = "embedded_date (replace_first CHR ''v'' v)"
  let ?p1 = "prev\<lparr>checkingUpdate := Some True, updateError := None\<rparr>"
  let ?p2 = "prev\<lparr>checkingUpdate := Some True\<rparr>"
  from scan_registry [OF assms(6)] obtain sc where
    sc: "forEach_js scan_version scan_start vs = Inr sc"
      "foundTags sc = registry_nightly_tags vs" "best_so_far sc"
    by blast
  have tried: "checkForUpdates_try h (JStr v) p = Inr (nightly_result (Val (int ?cd)) sc p)" for p
    using sc(1) assms(2-5)
    by (simp add: checkForUpdates_try_def strip_v_def nightly_try_def current_date_embedded)
  have r1: "checkForUpdates h seen prev = nightly_result (Val (int ?cd)) sc ?p1"
    using tried [of ?p1] assms(1) by (simp add: checkForUpdates_def Let_def)
  have r2: "checkForUpdates_ref h seen prev = nightly_result (Val (int ?cd)) sc ?p2"
    using tried [of ?p2] assms(1) by (simp add: checkForUpdates_ref_def Let_def)
  have same: "latestNightly (nightly_result d sc ?p2) = latestNightly (nightly_result d sc ?p1)"
    "updateAvailable (nightly_result d sc ?p2) = updateAvailable (nightly_result d sc ?p1)" for d
    by (simp_all add: nightly_result_def Let_def)
  have tags: "\<forall>t \<in> set (registry_nightly_tags vs). is_nightly_tag t"
    by (simp add: registry_nightly_tags_def)
  from nightly_selection [OF sc(3) sc(2) tags, of ?cd ?p1] show ?thesis
    unfolding r1 r2 same by simp
qed


lemma nightly_example_tags:
  "registry_nightly_tags
     [version_with_tags [''nightly-20250101'', ''latest''], version_with_tags [''nightly-20250901'']]
   = [''nightly-20250101'', ''nightly-20250901'']"
  by (simp add: registry_nightly_tags_def version_tags_def tags_of_version_def
      version_with_tags_def is_nightly_tag_def startsWith_def is_digit_in_def digit_table_def
      Let_def)

lemma nightly_example_dates:
  "embedded_date ''nightly-20250101'' = 20250101"
  "embedded_date ''nightly-20250901'' = 20250901"
  "embedded_date ''nightly-20250831-5-gc2d911f7'' = 20250831"
  by (simp_all add: embedded_date_def digits_value_def digit_val_def startsWith_def
      is_digit_in_def digit_table_def Let_def)

theorem nightly_selects_latest_witness:
  "latestNightly
     (checkForUpdates
        (host_registry (JArr [version_with_tags [''nightly-20250101'', ''latest''],
                              version_with_tags [''nightly-20250901'']]))
        nightly_info nightly_info) = Some ''nightly-20250901''
   \<and> updateAvailable
     (checkForUpdates
        (host_registry (JArr [version_with_tags [''nightly-20250101'', ''latest''],
                              version_with_tags [''nightly-20250901'']]))
        nightly_info nightly_info) = Some True"
proof -
  let ?vs = "[version_with_tags [''nightly-20250101'', ''latest''],
              version_with_tags [''nightly-20250901'']]"
  let ?h = "host_registry (JArr ?vs)"
  have cur: "current nightly_info = JStr ''nightly-20250831-5-gc2d911f7''"
    by (simp add: nightly_info_def)
  have nightly: "includes_js (replace_first CHR ''v'' ''nightly-20250831-5-gc2d911f7'') ''nightly''"
    by (simp add: startsWith_def)
  have same: "replace_first CHR ''v'' ''nightly-20250831-5-gc2d911f7''
                = ''nightly-20250831-5-gc2d911f7''"
    by simp
  have out: "spawn ?h registry_command = Inr ''registry answer''"
    and nonempty: "''registry answer'' \<noteq> []"
    and parsed: "JSON_parse ?h ''registry answer'' = Some (JArr ?vs)"
    by (simp_all add: host_registry_def)
  have ok: "list_all version_record_ok ?vs"
    by (simp add: version_record_ok_def tags_of_version_def version_with_tags_def is_string_def)
  from nightly_selects_latest [OF cur nightly out nonempty parsed ok, of nightly_info]
  show ?thesis
    unfolding same nightly_example_tags by (auto simp: nightly_example_dates)
qed

text \<open>
  The claim as the specification words it fails for a registry whose only nightly tag
  carries the date \<^verbatim>\<open>00000000\<close>: the tag is a nightly tag and its date is the greatest,
  but the scan starts from the date 0 and keeps a tag only for a greater date, so
  \<^verbatim>\<open>latestNightly\<close> is the word \<^verbatim>\<open>nightly\<close>.
\<close>

lemma zero_tags:
  "registry_nightly_tags [version_with_tags [''nightly-00000000'']] = [''nightly-00000000'']"
  by (simp add: registry_nightly_tags_def version_tags_def tags_of_version_def
      version_with_tags_def is_nightly_tag_def startsWith_def is_digit_in_def digit_table_def Let_def)

lemma zero_scan:
  "forEach_js scan_version scan_start [version_with_tags [''nightly-00000000'']] =
     Inr \<lparr>foundTags = [''nightly-00000000''], latestNightlyDate = Val 0, latestNightlyTag = []\<rparr>"
  by (simp add: scan_version_def tags_of_version_def version_with_tags_def scan_tag_def
      scan_start_def parseInt_def parse_digits_def digits_value_def digit_val_def is_ws_def
      startsWith_def is_digit_in_def digit_table_def Let_def)

theorem zero_date_tag_not_selected:
  "registry_nightly_tags [version_with_tags [''nightly-00000000'']] = [''nightly-00000000'']
   \<and> latestNightly (checkForUpdates (host_registry (JArr [version_with_tags [''nightly-00000000'']]))
                      nightly_info nightly_info) = Some ''nightly''
   \<and> latestNightly (checkForUpdates_ref (host_registry (JArr [version_with_tags [''nightly-00000000'']]))
                      nightly_info nightly_info) = Some ''nightly''
   \<and> latestNightly (checkForUpdates (host_registry (JArr [version_with_tags [''nightly-00000000'']]))
                      nightly_info nightly_info) \<noteq> Some ''nightly-00000000''"
  by (simp add: zero_tags zero_scan checkForUpdates_def checkForUpdates_ref_def
      checkForUpdates_try_def strip_v_def nightly_try_def nightly_result_def host_registry_def
      nightly_info_def registry_command_def startsWith_def Let_def del: forEach_js.simps)


text \<open>
  Claim C10. After a nightly check whose registry request succeeded, \<^verbatim>\<open>nightlyTags\<close> holds
  at most five tags, sorted from the newest date to the oldest: the first five of the
  registry's nightly tags in that order.
\<close>

theorem nightlyTags_sorted_capped:
  assumes "current seen = JStr v" and "includes_js (replace_first CHR ''v'' v) ''nightly''"
    and "spawn h registry_command = Inr out" and "out \<noteq> []"
    and "JSON_parse h out = Some (JArr vs)" and "list_all version_record_ok vs"
  shows "\<exists>ts. nightlyTags (checkForUpdates h seen prev) = Some ts
           \<and> nightlyTags (checkForUpdates_ref h seen prev) = Some ts
           \<and> sorted_wrt (\<lambda>a b. embedded_date b \<le> embedded_date a) ts
           \<and> length ts \<le> 5
           \<and> length ts = min 5 (length (registry_nightly_tags vs))
           \<and> set ts \<subseteq> set (registry_nightly_tags vs)"
proof -
  let ?cd = "embedded_date (replace_first CHR ''v'' v)"
  let ?ts = "take 5 (sort_js newest_first (registry_nightly_tags vs))"
  from scan_registry [OF assms(6)] obtain sc where
    sc: "forEach_js scan_version scan_start vs = Inr sc"
      "foundTags sc = registry_nightly_tags vs"
    by blast
  have tried: "checkForUpdates_try h (JStr v) p = Inr (nightly_result (Val (int ?cd)) sc p)" for p
    using sc(1) assms(2-5)
    by (simp add: checkForUpdates_try_def strip_v_def nightly_try_def current_date_embedded)
  have "nightlyTags (checkForUpdates h seen prev) = Some ?ts"
    using tried assms(1) sc(2) by (simp add: checkForUpdates_def nightly_result_def Let_def)
  moreover have "nightlyTags (checkForUpdates_ref h seen prev) = Some ?ts"
    using tried assms(1) sc(2) by (simp add: checkForUpdates_ref_def nightly_result_def Let_def)
  moreover have "sorted_wrt (\<lambda>a b. embedded_date b \<le> embedded_date a) ?ts"
    by (rule sorted_wrt_take_js) (rule sorted_sort_js)
  moreover have "length ?ts = min 5 (length (registry_nightly_tags vs))"
    by (simp add: length_sort_js min.commute)
  moreover have "set ?ts \<subseteq> set (registry_nightly_tags vs)"
    using set_take_subset [of 5 "sort_js newest_first (registry_nightly_tags vs)"]
    by (simp add: set_sort_js)
  ultimately show ?thesis by simp
qed


theorem nightlyTags_sorted_capped_witness:
  "\<exists>ts. nightlyTags
          (checkForUpdates
             (host_registry (JArr [version_with_tags [''nightly-20250101'', ''latest''],
                                   version_with_tags [''nightly-20250901'']]))
             nightly_info nightly_info) = Some ts
        \<and> length ts = 2
        \<and> sorted_wrt (\<lambda>a b. embedded_date b \<le> embedded_date a) ts"
proof -
  let ?vs = "[version_with_tags [''nightly-20250101'', ''latest''],
              version_with_tags [''nightly-20250901'']]"
  let ?h = "host_registry (JArr ?vs)"
  have cur: "current nightly_info = JStr ''nightly-20250831-5-gc2d911f7''"
    by (simp add: nightly_info_def)
  have nightly: "includes_js (replace_first CHR ''v'' ''nightly-20250831-5-gc2d911f7'') ''nightly''"
    by (simp add: startsWith_def)
  have out: "spawn ?h registry_command = Inr ''registry answer''"
    and nonempty: "''registry answer'' \<noteq> []"
    and parsed: "JSON_parse ?h ''registry answer'' = Some (JArr ?vs)"
    by (simp_all add: host_registry_def)
  have ok: "list_all version_record_ok ?vs"
    by (simp add: version_record_ok_def tags_of_version_def version_with_tags_def is_string_def)
  from nightlyTags_sorted_capped [OF cur nightly out nonempty parsed ok, of nightly_info]
  show ?thesis
    unfolding nightly_example_tags by auto
qed

subsection \<open>What a failed check leaves alone\<close>

lemma try_keeps_current:
  "checkForUpdates_try h cur p = Inr r \<Longrightarrow> current r = current p \<and> buildDate r = buildDate p"
  by (auto simp: checkForUpdates_try_def stable_try_def nightly_try_def nightly_fallback_def
      nightly_result_def Let_def
      split: sum.splits option.splits if_splits jsval.splits prod.splits)

text \<open>
  Claim C4. No run of \<^verbatim>\<open>checkForUpdates\<close>, failing or not, changes \<^verbatim>\<open>current\<close> or
  \<^verbatim>\<open>buildDate\<close>. When the whole operation throws (the outer \<^verbatim>\<open>try\<close> block ends by an
  exception), the state afterwards is the state before with \<^verbatim>\<open>checkingUpdate = false\<close> and
  \<^verbatim>\<open>updateError\<close> set: \<^verbatim>\<open>updateAvailable\<close> and every other field are as they were. This
  holds for both copies of the function.
\<close>

theorem checkForUpdates_frame:
  "current (checkForUpdates h seen prev) = current prev
   \<and> buildDate (checkForUpdates h seen prev) = buildDate prev
   \<and> current (checkForUpdates_ref h seen prev) = current prev
   \<and> buildDate (checkForUpdates_ref h seen prev) = buildDate prev
   \<and> (checkForUpdates_try h (current seen)
          (prev\<lparr>checkingUpdate := Some True, updateError := None\<rparr>) = Inl e
        \<longrightarrow> checkForUpdates h seen prev =
            prev\<lparr>checkingUpdate := Some False,
                 updateError := Some ''Failed to check for updates''\<rparr>)
   \<and> (checkForUpdates_try h (current seen) (prev\<lparr>checkingUpdate := Some True\<rparr>) = Inl e
        \<longrightarrow> checkForUpdates_ref h seen prev =
            prev\<lparr>checkingUpdate := Some False,
                 updateError := Some ''Failed to check for updates''\<rparr>)"
  by (auto simp: checkForUpdates_def checkForUpdates_ref_def update_failed_def Let_def
      dest: try_keeps_current split: sum.splits)

lemma stable_check_throws:
  "checkForUpdates_try host_down (JStr ''v1.2.3'') p = Inl SpawnError"
  by (simp add: checkForUpdates_try_def strip_v_def stable_try_def host_down_def startsWith_def)

theorem checkForUpdates_frame_witness:
  "checkForUpdates host_down stable_info stable_info =
     stable_info\<lparr>updateError := Some ''Failed to check for updates''\<rparr>
   \<and> checkForUpdates_ref host_down stable_info stable_info =
     stable_info\<lparr>updateError := Some ''Failed to check for updates''\<rparr>
   \<and> updateAvailable (checkForUpdates host_down stable_info stable_info) = Some True
   \<and> current (checkForUpdates host_down stable_info stable_info) = JStr ''v1.2.3''"
proof -
  have cur: "current stable_info = JStr ''v1.2.3''"
    and idle: "stable_info\<lparr>checkingUpdate := Some False\<rparr> = stable_info"
    by (simp_all add: stable_info_def)
  from checkForUpdates_frame [of host_down stable_info stable_info SpawnError]
  show ?thesis
    unfolding cur stable_check_throws
    by (simp add: idle) (simp add: stable_info_def)
qed

section \<open>Properties of the upgrade\<close>

lemma upgrade_try_refused:
  "\<not> d_available (dockerStatus st) \<or> \<not> d_running (dockerStatus st) \<Longrightarrow>
   upgrade_try h st =
     ([Alert (if \<not> d_available (dockerStatus st)
              then ''Docker is not available. Please install Docker to upgrade BirdNET-Go.''
              else ''Docker service is not running. Please start Docker service first.'')],
      Inr ())"
  by (auto simp: upgrade_try_def)

text \<open>
  Claim C6. When Docker is not available or not running, \<^verbatim>\<open>upgradeBirdNetGo\<close> raises the
  alert that says so and returns: the \<^verbatim>\<open>try\<close> block ends without an exception, so the
  generic failure alert of the handler is not raised, and the function spawns no command
  at all, in particular no pull, stop, rm or run.
\<close>

theorem upgrade_refused:
  assumes "\<not> d_available (dockerStatus st) \<or> \<not> d_running (dockerStatus st)"
  shows "upgradeBirdNetGo h st =
           [SetUpgrading True,
            Alert (if \<not> d_available (dockerStatus st)
                   then ''Docker is not available. Please install Docker to upgrade BirdNET-Go.''
                   else ''Docker service is not running. Please start Docker service first.''),
            SetUpgrading False]
         \<and> snd (upgrade_try h st) = Inr ()
         \<and> (\<forall>cmd. Spawn cmd \<notin> set (upgradeBirdNetGo h st)
                 \<and> SpawnSuperuser cmd \<notin> set (upgradeBirdNetGo h st))"
  using upgrade_try_refused [OF assms, of h]
  by (simp add: upgradeBirdNetGo_def)

theorem upgrade_refused_witness:
  "\<not> d_running (dockerStatus docker_stopped_state)
   \<and> upgradeBirdNetGo host_down docker_stopped_state =
       [SetUpgrading True,
        Alert ''Docker service is not running. Please start Docker service first.'',
        SetUpgrading False]"
proof -
  have stopped: "\<not> d_running (dockerStatus docker_stopped_state)"
    and installed: "d_available (dockerStatus docker_stopped_state)"
    by (simp_all add: docker_stopped_state_def)
  then have "\<not> d_available (dockerStatus docker_stopped_state)
             \<or> \<not> d_running (dockerStatus docker_stopped_state)"
    by simp
  from upgrade_refused [OF this, of host_down] show ?thesis
    using stopped installed by simp
qed


section \<open>Properties of the application logs\<close>

lemma parsed_lines:
  "filter (\<lambda>log. log \<noteq> JNull) (map (parse_line h) ls)
     = filter (\<lambda>log. log \<noteq> JNull) (List.map_filter (JSON_parse h) ls)"
  by (induction ls) (auto simp: parse_line_def List.map_filter_simps split: option.splits)

text \<open>
  Claim C7. \<^verbatim>\<open>fetchAppLogs\<close> asks \<^verbatim>\<open>tail\<close> for the last 500 lines of the selected file.
  From the text it gets, it keeps the values of the lines that parse, each line parsed on
  its own, in the reverse order of their lines, so the newest comes first; a line that
  does not parse leaves no entry (nor does a line that is the JSON \<^verbatim>\<open>null\<close>).
\<close>

theorem fetchAppLogs_newest_first:
  assumes "selectedLogFile \<noteq> []"
    and "spawn h [''tail'', ''-n'', ''500'',
                  ''/home/thakala/birdnet-go-app/data/logs/'' @ selectedLogFile] = Inr result"
  shows "fetchAppLogs h selectedLogFile logs =
           rev (filter (\<lambda>log. log \<noteq> JNull)
                  (List.map_filter (JSON_parse h) (split_on CHR 0x0A (trim result))))
         \<and> (\<forall>log \<in> set (fetchAppLogs h selectedLogFile logs).
               \<exists>line \<in> set (split_on CHR 0x0A (trim result)). JSON_parse h line = Some log)
         \<and> length (fetchAppLogs h selectedLogFile logs)
             \<le> length (filter (\<lambda>line. JSON_parse h line \<noteq> None) (split_on CHR 0x0A (trim result)))"
proof -
  let ?lines = "split_on CHR 0x0A (trim result)"
  have eq: "fetchAppLogs h selectedLogFile logs =
              rev (filter (\<lambda>log. log \<noteq> JNull) (List.map_filter (JSON_parse h) ?lines))"
    using assms by (simp add: fetchAppLogs_def logs_dir_def parsed_lines)
  have "\<forall>log \<in> set (List.map_filter (JSON_parse h) ?lines).
          \<exists>line \<in> set ?lines. JSON_parse h line = Some log"
    by (auto simp: List.map_filter_def)
  moreover have "length (filter (\<lambda>log. log \<noteq> JNull) (List.map_filter (JSON_parse h) ?lines))
                   \<le> length (List.map_filter (JSON_parse h) ?lines)"
    by simp
  moreover have "length (List.map_filter (JSON_parse h) ?lines)
                   = length (filter (\<lambda>line. JSON_parse h line \<noteq> None) ?lines)"
    by (simp add: List.map_filter_def)
  ultimately show ?thesis unfolding eq by auto
qed

theorem fetchAppLogs_newest_first_witness:
  "fetchAppLogs host_log ''analysis.log'' [] =
     [JObj [(''level'', JStr ''ERROR''), (''msg'', JStr ''failed'')],
      JObj [(''level'', JStr ''INFO''), (''msg'', JStr ''started'')]]"
proof -
  let ?out = "''first'' @ [CHR 0x0A] @ ''not json'' @ [CHR 0x0A] @ ''null'' @ [CHR 0x0A] @ ''second'' @ [CHR 0x0A]"
  have selected: "''analysis.log'' \<noteq> []" by simp
  have out: "spawn host_log [''tail'', ''-n'', ''500'',
               ''/home/thakala/birdnet-go-app/data/logs/'' @ ''analysis.log''] = Inr ?out"
    by (simp add: host_log_def)
  have lines: "split_on CHR 0x0A (trim ?out) = [''first'', ''not json'', ''null'', ''second'']"
    by (simp add: trim_def is_ws_def)
  from fetchAppLogs_newest_first [OF selected out, of "[]"] show ?thesis
    unfolding lines by (simp add: List.map_filter_simps host_log_def)
qed


lemma lower_upper_char: "lower_char (upper_char c) = lower_char c"
  by (simp add: lower_char_def upper_char_def lower_letters_def upper_letters_def)

lemma upper_lower_char: "upper_char (lower_char c) = upper_char c"
  by (simp add: lower_char_def upper_char_def lower_letters_def upper_letters_def)

lemma lower_upper: "toLowerCase (toUpperCase a) = toLowerCase a"
  by (simp add: toLowerCase_def toUpperCase_def lower_upper_char comp_def)

lemma upper_lower: "toUpperCase (toLowerCase a) = toUpperCase a"
  by (simp add: toLowerCase_def toUpperCase_def upper_lower_char comp_def)

lemma same_case_insensitive:
  "toUpperCase a = toUpperCase b \<longleftrightarrow> toLowerCase a = toLowerCase b"
  by (metis lower_upper upper_lower)

lemma toLowerCase_Nil: "toLowerCase [] = []"
  by (simp add: toLowerCase_def)

lemma startsWith_prefix: "startsWith s p \<longleftrightarrow> prefix p s"
  unfolding startsWith_def
  by (metis append_eq_conv_conj prefix_def)

lemma includes_sublist: "includes_js s sub \<longleftrightarrow> sublist sub s"
  by (induction s) (simp_all add: sublist_Cons_right startsWith_prefix)

lemma includes_empty: "includes_js s []"
  by (simp add: includes_sublist)

lemma filter_js_spec:
  "(\<forall>x \<in> set xs. p x = Inr (q x)) \<Longrightarrow> filter_js p xs = Inr (filter q xs)"
  by (induction xs) auto

lemma keepLog_ok:
  assumes "log_entry_ok log"
  shows "keepLog lf st log = Inr (kept lf st log)"
proof -
  from assms obtain lv where lv: "get_prop log ''level'' = Inr lv"
    and shape: "lv = JUndefined \<or> lv = JNull \<or> (\<exists>s. lv = JStr s)"
    by (auto simp: log_entry_ok_def is_string_def split: sum.splits jsval.splits)
  from lv have defined: "log \<noteq> JUndefined" by auto
  from shape lv defined show ?thesis
    by (auto simp: keepLog_def kept_def level_differs_def search_misses_def level_of_def
        includes_empty toLowerCase_Nil)
qed

lemma sublist_join: "x \<in> set xs \<Longrightarrow> sublist x (join sep xs)"
proof (induction sep xs rule: join.induct)
  case (1 sep)
  then show ?case by simp
next
  case (2 sep y)
  then show ?case by simp
next
  case (3 sep y z zs)
  show ?case
  proof (cases "x = y")
    case True
    then show ?thesis by simp
  next
    case False
    with 3 have "sublist x (join sep (z # zs))" by simp
    then have "sublist x ((y @ sep) @ join sep (z # zs))"
      using sublist_order.order.trans sublist_append_leftI by blast
    then show ?thesis by simp
  qed
qed

lemma plain_quote: "plain s \<Longrightarrow> quote s = CHR 0x22 # s @ [CHR 0x22]"
proof -
  assume "plain s"
  then have "concat (map escape_char s) = s"
    by (induction s) (simp_all add: plain_def)
  then show ?thesis by (simp add: quote_def)
qed

lemma field_listed:
  "(k, v) \<in> set fs \<Longrightarrow> v \<noteq> JUndefined \<Longrightarrow>
   (quote k @ '':'' @ stringify v) \<in> set (stringify_fields fs)"
  by (induction fs) auto

lemma value_in_serialization:
  assumes "(k, JStr v) \<in> set fs" and "plain v"
  shows "sublist v (stringify (JObj fs))"
proof -
  have "sublist v (quote v)"
    using assms(2) by (simp add: plain_quote) (metis append_Cons append_Nil sublist_appendI)
  also have "sublist (quote v) (quote k @ '':'' @ stringify (JStr v))"
    by (metis append.assoc stringify.simps(5) sublist_append_leftI)
  also have "sublist \<dots> (join '','' (stringify_fields fs))"
    using field_listed [OF assms(1)] by (simp add: sublist_join)
  also have "sublist \<dots> (stringify (JObj fs))"
    by (metis append_Cons append_Nil stringify.simps(7) sublist_appendI)
  finally show ?thesis .
qed

lemma search_finds_value:
  assumes "(k, JStr v) \<in> set fs" and "plain v"
  shows "includes_js (toLowerCase (stringify (JObj fs))) (toLowerCase v)"
  unfolding includes_sublist toLowerCase_def
  using value_in_serialization [OF assms] by (rule map_mono_sublist)

text \<open>
  Claim C8. On a buffer whose entries the filter can read, \<^verbatim>\<open>filteredLogs\<close> is the
  buffer filtered: under a level other than \<^verbatim>\<open>all\<close> (and no search text) an entry is
  shown if and only if its level is that level up to case; under a search text (and
  the level \<^verbatim>\<open>all\<close>) if and only if its serialization, in lower case, contains the text in
  lower case. So a search for the value of any string field of an entry, whatever the
  field, shows the entry. The result is a subsequence of the buffer, and the buffer is
  only read.
\<close>

theorem filteredLogs_spec:
  assumes "list_all log_entry_ok (appLogs view)"
  shows "\<exists>shown. filteredLogs view = Inr shown
           \<and> shown = filter (kept (logLevelFilter view) (logSearchText view)) (appLogs view)
           \<and> subseq shown (appLogs view)
           \<and> (logLevelFilter view \<noteq> ''all'' \<and> logSearchText view = [] \<longrightarrow>
                (\<forall>log \<in> set (appLogs view).
                   log \<in> set shown \<longleftrightarrow>
                   (\<exists>s. level_of log = Some s
                       \<and> toLowerCase s = toLowerCase (logLevelFilter view))))
           \<and> (logLevelFilter view = ''all'' \<longrightarrow>
                (\<forall>log \<in> set (appLogs view).
                   log \<in> set shown \<longleftrightarrow>
                   includes_js (toLowerCase (stringify log)) (toLowerCase (logSearchText view))))
           \<and> (\<forall>fs k v. logLevelFilter view = ''all'' \<and> JObj fs \<in> set (appLogs view)
                 \<and> (k, JStr v) \<in> set fs \<and> plain v \<and> logSearchText view = v
                 \<longrightarrow> JObj fs \<in> set shown)"
proof -
  let ?shown = "filter (kept (logLevelFilter view) (logSearchText view)) (appLogs view)"
  have "\<forall>log \<in> set (appLogs view).
          keepLog (logLevelFilter view) (logSearchText view) log
            = Inr (kept (logLevelFilter view) (logSearchText view) log)"
    using assms by (simp add: list_all_iff keepLog_ok)
  then have res: "filteredLogs view = Inr ?shown"
    unfolding filteredLogs_def by (rule filter_js_spec)
  have level: "log \<in> set ?shown \<longleftrightarrow>
        (\<exists>s. level_of log = Some s \<and> toLowerCase s = toLowerCase (logLevelFilter view))"
    if "logLevelFilter view \<noteq> ''all''" "logSearchText view = []" "log \<in> set (appLogs view)"
    for log
    using that
    by (auto simp: kept_def includes_empty toLowerCase_Nil same_case_insensitive
        split: option.splits)
  have search: "log \<in> set ?shown \<longleftrightarrow>
        includes_js (toLowerCase (stringify log)) (toLowerCase (logSearchText view))"
    if "logLevelFilter view = ''all''" "log \<in> set (appLogs view)" for log
    using that by (simp add: kept_def)
  have found: "JObj fs \<in> set ?shown"
    if "logLevelFilter view = ''all''" "JObj fs \<in> set (appLogs view)" "(k, JStr v) \<in> set fs"
      "plain v" "logSearchText view = v" for fs k v
    using that search_finds_value [of k v fs] by (simp add: kept_def)
  have c3: "subseq ?shown (appLogs view)"
    by simp
  have c4: "logLevelFilter view \<noteq> ''all'' \<and> logSearchText view = [] \<longrightarrow>
              (\<forall>log \<in> set (appLogs view).
                 log \<in> set ?shown \<longleftrightarrow>
                 (\<exists>s. level_of log = Some s
                     \<and> toLowerCase s = toLowerCase (logLevelFilter view)))"
    using level by blast
  have c5: "logLevelFilter view = ''all'' \<longrightarrow>
              (\<forall>log \<in> set (appLogs view).
                 log \<in> set ?shown \<longleftrightarrow>
                 includes_js (toLowerCase (stringify log)) (toLowerCase (logSearchText view)))"
    using search by blast
  have c6: "\<forall>fs k v. logLevelFilter view = ''all'' \<and> JObj fs \<in> set (appLogs view)
               \<and> (k, JStr v) \<in> set fs \<and> plain v \<and> logSearchText view = v
               \<longrightarrow> JObj fs \<in> set ?shown"
    using found by blast
  show ?thesis
    by (intro exI [of _ ?shown] conjI) (rule res refl c3 c4 c5 c6)+
qed


lemma example_logs_ok: "list_all log_entry_ok example_logs"
  by (simp add: example_logs_def log_entry_ok_def is_string_def)

lemma example_by_level:
  "filter (kept ''ERROR'' []) example_logs =
     [JObj [(''time'', JStr ''2025-08-31T10:00:02Z''), (''level'', JStr ''ERROR''),
            (''msg'', JStr ''capture failed'')]]"
  by (simp add: example_logs_def kept_def level_of_def includes_empty toLowerCase_Nil
      toUpperCase_def upper_char_def lower_letters_def upper_letters_def)

lemma species_is_plain: "plain ''Parus major''"
  by (simp add: plain_def escape_char_def)

theorem filteredLogs_spec_witness:
  "filteredLogs \<lparr>appLogs = example_logs, logLevelFilter = ''ERROR'', logSearchText = []\<rparr> =
     Inr [JObj [(''time'', JStr ''2025-08-31T10:00:02Z''), (''level'', JStr ''ERROR''),
                (''msg'', JStr ''capture failed'')]]
   \<and> (\<exists>shown.
        filteredLogs \<lparr>appLogs = example_logs, logLevelFilter = ''all'',
                      logSearchText = ''Parus major''\<rparr> = Inr shown
        \<and> JObj [(''time'', JStr ''2025-08-31T10:00:00Z''), (''level'', JStr ''DEBUG''),
                 (''msg'', JStr ''detection''), (''species'', JStr ''Parus major'')] \<in> set shown)"
proof -
  let ?by_level = "\<lparr>appLogs = example_logs, logLevelFilter = ''ERROR'', logSearchText = []\<rparr>"
  let ?by_text = "\<lparr>appLogs = example_logs, logLevelFilter = ''all'',
                   logSearchText = ''Parus major''\<rparr>"
  let ?entry = "[(''time'', JStr ''2025-08-31T10:00:00Z''), (''level'', JStr ''DEBUG''),
                 (''msg'', JStr ''detection''), (''species'', JStr ''Parus major'')]"
  have ok1: "list_all log_entry_ok (appLogs ?by_level)"
    and ok2: "list_all log_entry_ok (appLogs ?by_text)"
    by (simp_all add: example_logs_ok)
  have first: "filteredLogs ?by_level = Inr (filter (kept ''ERROR'' []) example_logs)"
    using filteredLogs_spec [OF ok1] by auto
  from filteredLogs_spec [OF ok2] obtain shown where
    shown: "filteredLogs ?by_text = Inr shown"
    and any_field: "\<forall>fs k v. logLevelFilter ?by_text = ''all'' \<and> JObj fs \<in> set (appLogs ?by_text)
                      \<and> (k, JStr v) \<in> set fs \<and> plain v \<and> logSearchText ?by_text = v
                      \<longrightarrow> JObj fs \<in> set shown"
    by blast
  have listed: "JObj ?entry \<in> set (appLogs ?by_text)"
    and field: "(''species'', JStr ''Parus major'') \<in> set ?entry"
    by (simp_all add: example_logs_def)
  have "logLevelFilter ?by_text = ''all'' \<and> JObj ?entry \<in> set (appLogs ?by_text)
          \<and> (''species'', JStr ''Parus major'') \<in> set ?entry \<and> plain ''Parus major''
          \<and> logSearchText ?by_text = ''Parus major''"
    using listed field species_is_plain by simp
  with any_field have "JObj ?entry \<in> set shown"
    by blast
  with first shown show ?thesis
    by (simp add: example_by_level)
qed

section \<open>Properties of the arguments of docker run\<close>

lemma adjacent_snoc:
  "adjacent a b (xs @ [x]) \<longleftrightarrow> adjacent a b xs \<or> (xs \<noteq> [] \<and> last xs = a \<and> x = b)"
  by (induction a b xs rule: adjacent.induct) auto

lemma adjacent_append_left: "adjacent a b xs \<Longrightarrow> adjacent a b (xs @ ys)"
  by (induction ys rule: rev_induct) (simp_all add: adjacent_snoc flip: append_assoc)

lemma adjacent_pushed: "adjacent a b (xs @ [a, b])"
proof -
  have "adjacent a b ((xs @ [a]) @ [b])"
    unfolding adjacent_snoc by simp
  then show ?thesis by simp
qed

lemma no_default_env_push:
  assumes "no_default_env xs" and "\<not> default_env f" and "f \<noteq> ''-e'' \<or> \<not> default_env v"
  shows "no_default_env (xs @ [f, v])"
proof -
  have "adjacent ''-e'' e ((xs @ [f]) @ [v]) \<Longrightarrow> default_env e \<Longrightarrow> False" for e
    using assms unfolding adjacent_snoc no_default_env_def by auto
  then show ?thesis unfolding no_default_env_def by auto
qed

lemma no_default_env_last:
  assumes "no_default_env xs" and "\<not> default_env x"
  shows "no_default_env (xs @ [x])"
  using assms unfolding adjacent_snoc no_default_env_def by auto

lemma flags_not_default:
  "\<not> default_env ''-p''" "\<not> default_env ''-v''" "\<not> default_env ''-e''"
  by (simp_all add: default_env_def startsWith_def)

lemma forEach_js_invariant:
  assumes "forEach_js f s xs = Inr s'" and "I s"
    and "\<forall>s x s1. I s \<longrightarrow> f s x = Inr s1 \<longrightarrow> I s1"
  shows "I s'"
  using assms(1,2)
proof (induction xs arbitrary: s)
  case Nil
  then show ?case by simp
next
  case (Cons x xs)
  from Cons.prems(1) obtain s1 where s1: "f s x = Inr s1" "forEach_js f s1 xs = Inr s'"
    by (auto split: sum.splits)
  with assms(3) Cons.prems(2) have "I s1" by blast
  with Cons.IH s1(2) show ?case by blast
qed

lemma forEach_js_total:
  assumes "\<And>s x. x \<in> set xs \<Longrightarrow> \<exists>s1. f s x = Inr s1"
  shows "\<exists>s'. forEach_js f s xs = Inr s'"
  using assms
proof (induction xs arbitrary: s)
  case Nil
  then show ?case by simp
next
  case (Cons x xs)
  from Cons.prems [of x s] obtain s1 where "f s x = Inr s1" by auto
  moreover from Cons.IH [of s1] Cons.prems obtain s' where "forEach_js f s1 xs = Inr s'"
    by auto
  ultimately show ?case by simp
qed

lemma forEach_js_reaches:
  assumes "forEach_js f s xs = Inr s'" and "x \<in> set xs"
    and "\<forall>s s1. f s x = Inr s1 \<longrightarrow> Q s1"
    and "\<forall>s y s1. Q s \<longrightarrow> f s y = Inr s1 \<longrightarrow> Q s1"
  shows "Q s'"
  using assms(1,2)
proof (induction xs arbitrary: s)
  case Nil
  then show ?case by simp
next
  case (Cons y ys)
  from Cons.prems(1) obtain s1 where s1: "f s y = Inr s1" "forEach_js f s1 ys = Inr s'"
    by (auto split: sum.splits)
  show ?case
  proof (cases "x = y")
    case True
    with s1(1) assms(3) have "Q s1" by blast
    from forEach_js_invariant [OF s1(2) this assms(4)] show ?thesis .
  next
    case False
    with Cons.prems(2) have "x \<in> set ys" by simp
    with Cons.IH s1(2) show ?thesis by blast
  qed
qed

lemma push_port_result:
  "push_port cp args b = Inr args' \<Longrightarrow>
   \<exists>hp. get_prop b ''HostPort'' = Inr hp
       \<and> args' = args @ [''-p'', toString hp @ '':'' @ first_part CHR ''/'' cp]"
  by (auto simp: push_port_def bind_err_def split: sum.splits)

lemma push_mount_result:
  "push_mount args m = Inr args' \<Longrightarrow>
   \<exists>ty. get_prop m ''Type'' = Inr ty
       \<and> (if ty = JStr ''bind''
           then \<exists>s d. get_prop m ''Source'' = Inr s \<and> get_prop m ''Destination'' = Inr d
                  \<and> args' = args @ [''-v'', toString s @ '':'' @ toString d]
           else args' = args)"
  by (auto simp: push_mount_def bind_err_def split: sum.splits if_splits)

lemma push_env_result:
  "push_env args env = Inr args' \<Longrightarrow>
   \<exists>e. env = JStr e \<and> args' = (if default_env e then args else args @ [''-e'', e])"
  by (auto simp: push_env_def default_env_def split: jsval.splits if_splits)

lemma get_prop_not_nullish: "not_nullish v \<Longrightarrow> \<exists>x. get_prop v k = Inr x"
  by (cases v) (auto simp: not_nullish_def split: option.splits)

lemma push_port_total: "not_nullish b \<Longrightarrow> \<exists>args'. push_port cp args b = Inr args'"
  using get_prop_not_nullish [of b "''HostPort''"] by (auto simp: push_port_def bind_err_def)

lemma push_mount_total: "not_nullish m \<Longrightarrow> \<exists>args'. push_mount args m = Inr args'"
  using get_prop_not_nullish [of m "''Type''"] get_prop_not_nullish [of m "''Source''"]
    get_prop_not_nullish [of m "''Destination''"]
  by (auto simp: push_mount_def bind_err_def)

lemma push_env_total: "is_string env \<Longrightarrow> \<exists>args'. push_env args env = Inr args'"
  by (cases env) (auto simp: push_env_def is_string_def)


lemma grows_refl: "grows args args"
  by (simp add: grows_def)

lemma grows_trans: "grows a b \<Longrightarrow> grows b c \<Longrightarrow> grows a c"
  by (auto simp: grows_def)

lemma grows_push:
  "\<not> default_env f \<Longrightarrow> f \<noteq> ''-e'' \<or> \<not> default_env v \<Longrightarrow> grows args (args @ [f, v])"
  by (simp add: grows_def no_default_env_push)

lemma grows_adjacent: "grows args args' \<Longrightarrow> adjacent a b args \<Longrightarrow> adjacent a b args'"
  by (auto simp: grows_def prefix_def adjacent_append_left)

lemma push_port_grows: "push_port cp args b = Inr args' \<Longrightarrow> grows args args'"
  using push_port_result [of cp args b args'] by (auto simp: grows_push flags_not_default)

lemma push_mount_grows: "push_mount args m = Inr args' \<Longrightarrow> grows args args'"
  using push_mount_result [of args m args']
  by (auto simp: grows_push grows_refl flags_not_default split: if_splits)

lemma push_env_grows: "push_env args env = Inr args' \<Longrightarrow> grows args args'"
  using push_env_result [of args env args']
  by (auto simp: grows_push grows_refl flags_not_default split: if_splits)

lemma forEach_js_grows:
  assumes "forEach_js f args xs = Inr args'"
    and "\<forall>s x s1. f s x = Inr s1 \<longrightarrow> grows s s1"
  shows "grows args args'"
proof -
  from assms(2) have "\<forall>s x s1. grows args s \<longrightarrow> f s x = Inr s1 \<longrightarrow> grows args s1"
    using grows_trans by blast
  from forEach_js_invariant [OF assms(1) grows_refl this] show ?thesis .
qed

lemma port_entry_grows: "port_entry args entry = Inr args' \<Longrightarrow> grows args args'"
proof -
  assume r: "port_entry args entry = Inr args'"
  obtain cp hp where entry: "entry = (cp, hp)" by (cases entry)
  show ?thesis
  proof (cases "\<exists>bs. hp = JArr bs")
    case True
    then obtain bs where "hp = JArr bs" by blast
    with r entry have "forEach_js (push_port cp) args bs = Inr args'"
      by (simp add: port_entry_def)
    then show ?thesis
      by (rule forEach_js_grows) (simp add: push_port_grows)
  next
    case False
    with r entry have "args' = args" by (cases hp) (simp_all add: port_entry_def)
    then show ?thesis by (simp add: grows_refl)
  qed
qed

lemma port_entry_total:
  assumes "case snd entry of JArr bs \<Rightarrow> list_all not_nullish bs | _ \<Rightarrow> True"
  shows "\<exists>args'. port_entry args entry = Inr args'"
proof -
  obtain cp hp where entry: "entry = (cp, hp)" by (cases entry)
  show ?thesis
  proof (cases "\<exists>bs. hp = JArr bs")
    case True
    then obtain bs where bs: "hp = JArr bs" by blast
    with assms entry have "list_all not_nullish bs" by simp
    then have "\<exists>args'. forEach_js (push_port cp) args bs = Inr args'"
      by (intro forEach_js_total) (simp add: list_all_iff push_port_total)
    with entry bs show ?thesis by (simp add: port_entry_def)
  next
    case False
    with entry show ?thesis by (cases hp) (simp_all add: port_entry_def)
  qed
qed

lemma ports_pushed:
  assumes "forEach_js port_entry args entries = Inr args'"
    and "(cp, JArr bs) \<in> set entries" and "b \<in> set bs"
    and "get_prop b ''HostPort'' = Inr hp"
  shows "adjacent ''-p'' (toString hp @ '':'' @ first_part CHR ''/'' cp) args'"
proof -
  let ?Q = "adjacent ''-p'' (toString hp @ '':'' @ first_part CHR ''/'' cp)"
  have one: "\<forall>s s1. push_port cp s b = Inr s1 \<longrightarrow> ?Q s1"
    using assms(4) by (auto dest!: push_port_result simp: adjacent_pushed)
  have keep: "\<forall>s y s1. ?Q s \<longrightarrow> push_port cp s y = Inr s1 \<longrightarrow> ?Q s1"
    using push_port_grows grows_adjacent by blast
  have entry: "\<forall>s s1. port_entry s (cp, JArr bs) = Inr s1 \<longrightarrow> ?Q s1"
  proof (intro allI impI)
    fix s s1
    assume "port_entry s (cp, JArr bs) = Inr s1"
    then have "forEach_js (push_port cp) s bs = Inr s1" by (simp add: port_entry_def)
    from forEach_js_reaches [OF this assms(3) one keep] show "?Q s1" .
  qed
  have keep_entry: "\<forall>s y s1. ?Q s \<longrightarrow> port_entry s y = Inr s1 \<longrightarrow> ?Q s1"
    using port_entry_grows grows_adjacent by blast
  from forEach_js_reaches [OF assms(1,2) entry keep_entry] show ?thesis .
qed

lemma mounts_pushed:
  assumes "forEach_js push_mount args ms = Inr args'" and "m \<in> set ms"
    and "get_prop m ''Type'' = Inr (JStr ''bind'')"
    and "get_prop m ''Source'' = Inr s" and "get_prop m ''Destination'' = Inr d"
  shows "adjacent ''-v'' (toString s @ '':'' @ toString d) args'"
proof -
  let ?Q = "adjacent ''-v'' (toString s @ '':'' @ toString d)"
  have one: "\<forall>a a1. push_mount a m = Inr a1 \<longrightarrow> ?Q a1"
    using assms(3-5) by (auto dest!: push_mount_result simp: adjacent_pushed)
  have keep: "\<forall>a y a1. ?Q a \<longrightarrow> push_mount a y = Inr a1 \<longrightarrow> ?Q a1"
    using push_mount_grows grows_adjacent by blast
  from forEach_js_reaches [OF assms(1,2) one keep] show ?thesis .
qed

lemma env_pushed:
  assumes "forEach_js push_env args es = Inr args'" and "JStr e \<in> set es"
    and "\<not> default_env e"
  shows "adjacent ''-e'' e args'"
proof -
  have one: "\<forall>a a1. push_env a (JStr e) = Inr a1 \<longrightarrow> adjacent ''-e'' e a1"
    using assms(3) by (auto dest!: push_env_result simp: adjacent_pushed)
  have keep: "\<forall>a y a1. adjacent ''-e'' e a \<longrightarrow> push_env a y = Inr a1 \<longrightarrow> adjacent ''-e'' e a1"
    using push_env_grows grows_adjacent by blast
  from forEach_js_reaches [OF assms(1,2) one keep] show ?thesis .
qed

lemma opt_prop_total: "\<exists>x. opt_prop v k = Inr x"
  by (cases v) (auto split: option.splits)

lemma createArgs_stages:
  assumes "inspect_shaped config"
  shows "\<exists>n. get_prop config ''Name'' = Inr (JStr n)
           \<and> createArgs config imageName =
               bind_err (forEach_js port_entry (run_prefix (replace_first CHR ''/'' n))
                           (port_bindings config)) (\<lambda>args1.
               bind_err (forEach_js push_mount args1 (mounts_of config)) (\<lambda>args2.
               bind_err (forEach_js push_env args2 (env_of config)) (\<lambda>args3.
                 Inr (args3 @ [imageName]))))
           \<and> list_all not_nullish (mounts_of config) \<and> list_all is_string (env_of config)"
proof -
  from assms obtain n where n: "get_prop config ''Name'' = Inr (JStr n)"
    by (auto simp: inspect_shaped_def split: sum.splits jsval.splits)
  then obtain fs where fs: "config = JObj fs"
    by (cases config) auto
  have defined: "not_nullish config"
    using fs by (simp add: not_nullish_def)
  obtain hc where hc: "get_prop config ''HostConfig'' = Inr hc"
    using get_prop_not_nullish [OF defined] by blast
  obtain pb where pb: "opt_prop hc ''PortBindings'' = Inr pb"
    using opt_prop_total by blast
  obtain mounts where mounts: "get_prop config ''Mounts'' = Inr mounts"
    using get_prop_not_nullish [OF defined] by blast
  obtain cfg where cfg: "get_prop config ''Config'' = Inr cfg"
    using get_prop_not_nullish [OF defined] by blast
  obtain env where env: "opt_prop cfg ''Env'' = Inr env"
    using opt_prop_total by blast
  have ports: "(if truthy pb
                then forEach_js port_entry (run_prefix (replace_first CHR ''/'' n)) (object_entries pb)
                else Inr (run_prefix (replace_first CHR ''/'' n)))
               = forEach_js port_entry (run_prefix (replace_first CHR ''/'' n)) (port_bindings config)"
    using hc pb by (simp add: port_bindings_def bind_err_def)
  from assms mounts have m_ok: "array_or_falsy not_nullish mounts"
    by (simp add: inspect_shaped_def)
  then have m_all: "list_all not_nullish (mounts_of config)"
    using mounts by (cases mounts) (simp_all add: mounts_of_def array_or_falsy_def)
  have m_stage: "(if truthy mounts then forEach_val push_mount a mounts else Inr a)
                  = forEach_js push_mount a (mounts_of config)" for a
    using m_ok mounts by (cases mounts) (auto simp: mounts_of_def array_or_falsy_def forEach_val_def)
  from assms cfg env have e_ok: "array_or_falsy is_string env"
    by (simp add: inspect_shaped_def bind_err_def)
  then have e_all: "list_all is_string (env_of config)"
    using cfg env by (cases env) (simp_all add: env_of_def array_or_falsy_def bind_err_def)
  have e_stage: "(if truthy env then forEach_val push_env a env else Inr a)
                  = forEach_js push_env a (env_of config)" for a
    using e_ok cfg env
    by (cases env) (auto simp: env_of_def array_or_falsy_def forEach_val_def bind_err_def)
  have "createArgs config imageName =
          bind_err (forEach_js port_entry (run_prefix (replace_first CHR ''/'' n))
                      (port_bindings config)) (\<lambda>args1.
          bind_err (forEach_js push_mount args1 (mounts_of config)) (\<lambda>args2.
          bind_err (forEach_js push_env args2 (env_of config)) (\<lambda>args3.
            Inr (args3 @ [imageName]))))"
    by (simp add: createArgs_def bind_err_def n hc pb mounts cfg env
        ports [unfolded run_prefix_def] m_stage e_stage run_prefix_def)
  with n m_all e_all show ?thesis by blast
qed

lemma run_prefix_clean: "no_default_env (run_prefix n)"
  by (auto simp: no_default_env_def run_prefix_def default_env_def startsWith_def)

lemma createArgs_preserves_configuration:
  assumes "inspect_shaped config"
  shows "\<exists>args. createArgs config (''ghcr.io/tphakala/birdnet-go:'' @ imageTag) = Inr args
           \<and> (\<forall>cp bs b hp. (cp, JArr bs) \<in> set (port_bindings config) \<and> b \<in> set bs
                  \<and> get_prop b ''HostPort'' = Inr hp
                \<longrightarrow> adjacent ''-p'' (toString hp @ '':'' @ first_part CHR ''/'' cp) args)
           \<and> (\<forall>m s d. m \<in> set (mounts_of config) \<and> get_prop m ''Type'' = Inr (JStr ''bind'')
                  \<and> get_prop m ''Source'' = Inr s \<and> get_prop m ''Destination'' = Inr d
                \<longrightarrow> adjacent ''-v'' (toString s @ '':'' @ toString d) args)
           \<and> (\<forall>e. JStr e \<in> set (env_of config)
                  \<and> \<not> startsWith e ''PATH='' \<and> \<not> startsWith e ''HOME=''
                \<longrightarrow> adjacent ''-e'' e args)
           \<and> (\<forall>e. startsWith e ''PATH='' \<or> startsWith e ''HOME='' \<longrightarrow> \<not> adjacent ''-e'' e args)
           \<and> adjacent ''--restart'' ''unless-stopped'' args
           \<and> last args = ''ghcr.io/tphakala/birdnet-go:'' @ imageTag"
proof -
  let ?img = "''ghcr.io/tphakala/birdnet-go:'' @ imageTag"
  from createArgs_stages [OF assms, of ?img] obtain n where
    stages: "createArgs config ?img =
               bind_err (forEach_js port_entry (run_prefix (replace_first CHR ''/'' n))
                           (port_bindings config)) (\<lambda>args1.
               bind_err (forEach_js push_mount args1 (mounts_of config)) (\<lambda>args2.
               bind_err (forEach_js push_env args2 (env_of config)) (\<lambda>args3.
                 Inr (args3 @ [?img]))))"
    and m_all: "list_all not_nullish (mounts_of config)"
    and e_all: "list_all is_string (env_of config)"
    by blast
  let ?a0 = "run_prefix (replace_first CHR ''/'' n)"
  from assms have "list_all (\<lambda>entry. case snd entry of JArr bs \<Rightarrow> list_all not_nullish bs | _ \<Rightarrow> True)
                     (port_bindings config)"
    by (simp add: inspect_shaped_def)
  then have "\<exists>a1. forEach_js port_entry ?a0 (port_bindings config) = Inr a1"
    by (intro forEach_js_total) (simp add: list_all_iff port_entry_total)
  then obtain a1 where a1: "forEach_js port_entry ?a0 (port_bindings config) = Inr a1" ..
  from m_all have "\<exists>a2. forEach_js push_mount a1 (mounts_of config) = Inr a2"
    by (intro forEach_js_total) (simp add: list_all_iff push_mount_total)
  then obtain a2 where a2: "forEach_js push_mount a1 (mounts_of config) = Inr a2" ..
  from e_all have "\<exists>a3. forEach_js push_env a2 (env_of config) = Inr a3"
    by (intro forEach_js_total) (simp add: list_all_iff push_env_total)
  then obtain a3 where a3: "forEach_js push_env a2 (env_of config) = Inr a3" ..
  let ?args = "a3 @ [?img]"
  have res: "createArgs config ?img = Inr ?args"
    unfolding stages by (simp add: bind_err_def a1 a2 a3)
  have g1: "grows ?a0 a1"
    using a1 by (rule forEach_js_grows) (simp add: port_entry_grows)
  have g2: "grows a1 a2"
    using a2 by (rule forEach_js_grows) (simp add: push_mount_grows)
  have g3: "grows a2 a3"
    using a3 by (rule forEach_js_grows) (simp add: push_env_grows)
  have img: "\<not> default_env ?img"
    by (simp add: default_env_def startsWith_def)
  have clean: "no_default_env a3"
    using g1 g2 g3 run_prefix_clean by (simp add: grows_def)
  then have g4: "grows a3 ?args"
    using img by (simp add: grows_def no_default_env_last)
  have ports: "adjacent ''-p'' (toString hp @ '':'' @ first_part CHR ''/'' cp) ?args"
    if "(cp, JArr bs) \<in> set (port_bindings config)" "b \<in> set bs"
      "get_prop b ''HostPort'' = Inr hp" for cp bs b hp
    using ports_pushed [OF a1 that] g2 g3 g4 grows_adjacent by blast
  have vols: "adjacent ''-v'' (toString s @ '':'' @ toString d) ?args"
    if "m \<in> set (mounts_of config)" "get_prop m ''Type'' = Inr (JStr ''bind'')"
      "get_prop m ''Source'' = Inr s" "get_prop m ''Destination'' = Inr d" for m s d
    using mounts_pushed [OF a2 that] g3 g4 grows_adjacent by blast
  have envs: "adjacent ''-e'' e ?args"
    if "JStr e \<in> set (env_of config)" "\<not> startsWith e ''PATH=''" "\<not> startsWith e ''HOME=''" for e
    using env_pushed [OF a3 that(1)] that(2,3) g4 grows_adjacent by (auto simp: default_env_def)
  have excluded: "\<not> adjacent ''-e'' e ?args" if "startsWith e ''PATH='' \<or> startsWith e ''HOME=''" for e
    using clean g4 that by (auto simp: grows_def no_default_env_def default_env_def)
  have restart: "adjacent ''--restart'' ''unless-stopped'' ?args"
  proof -
    have "adjacent ''--restart'' ''unless-stopped'' ?a0" by (simp add: run_prefix_def)
    with g1 g2 g3 g4 show ?thesis using grows_adjacent by blast
  qed
  show ?thesis
    using res ports vols envs excluded restart by (intro exI [of _ ?args]) auto
qed


text \<open>
  Claim C5. Take a run of \<^verbatim>\<open>upgradeBirdNetGo\<close> for a standalone container: Docker is
  available and running, there is no unit, the container has an id, and the pull, the
  stop, the inspect and the removal succeed. Let the inspect output parse to an array
  whose first element is a configuration of the shape Docker prints. Then the function
  spawns, after \<^verbatim>\<open>docker rm\<close>, the argument list \<open>createArgs\<close> builds from that
  configuration and the pulled image, and this list starts with \<^verbatim>\<open>docker run -d\<close> and
  holds \<^verbatim>\<open>-p\<close> with the host port and the container port for every host binding of every
  port, \<^verbatim>\<open>-v\<close> with source and destination for every mount of type \<^verbatim>\<open>bind\<close>, and \<^verbatim>\<open>-e\<close>
  with the variable for every variable of the environment that does not begin with
  \<^verbatim>\<open>PATH=\<close> or \<^verbatim>\<open>HOME=\<close>. No \<^verbatim>\<open>-e\<close> is followed by a variable that begins with \<^verbatim>\<open>PATH=\<close>
  or \<^verbatim>\<open>HOME=\<close>. The list also holds \<^verbatim>\<open>--restart unless-stopped\<close> and ends with the new
  image.
\<close>

theorem upgrade_preserves_configuration:
  assumes docker: "d_available (dockerStatus st)" "d_running (dockerStatus st)"
    and standalone: "\<not> s_exists (systemdStatus st)"
      "c_containerId (containerStatus st) = Some containerId" "containerId \<noteq> []"
    and tag: "image_tag (versionInfo st) = Inr imageTag"
    and pulled: "spawn h [''docker'', ''pull'', ''ghcr.io/tphakala/birdnet-go:'' @ imageTag] = Inr out1"
    and stopped: "spawn h [''docker'', ''stop'', containerId] = Inr out2"
    and inspected: "spawn h [''docker'', ''inspect'', containerId] = Inr configJson"
    and parsed: "JSON_parse h configJson = Some (JArr (config # others))"
    and shaped: "inspect_shaped config"
    and removed: "spawn h [''docker'', ''rm'', containerId] = Inr out3"
  shows "\<exists>args.
           upgradeBirdNetGo h st =
             [SetUpgrading True,
              Spawn [''docker'', ''pull'', ''ghcr.io/tphakala/birdnet-go:'' @ imageTag],
              Spawn [''docker'', ''stop'', containerId],
              Spawn [''docker'', ''inspect'', containerId],
              Spawn [''docker'', ''rm'', containerId],
              Spawn args]
             @ (case spawn h args of
                  Inl e \<Rightarrow> [Alert ''Failed to upgrade BirdNET-Go. Please check the logs.'']
                | Inr started \<Rightarrow> [RefreshStatus, CheckForUpdates])
             @ [SetUpgrading False]
           \<and> createArgs config (''ghcr.io/tphakala/birdnet-go:'' @ imageTag) = Inr args
           \<and> take 3 args = [''docker'', ''run'', ''-d'']
           \<and> (\<forall>cp bs b hp. (cp, JArr bs) \<in> set (port_bindings config) \<and> b \<in> set bs
                  \<and> get_prop b ''HostPort'' = Inr hp
                \<longrightarrow> adjacent ''-p'' (toString hp @ '':'' @ first_part CHR ''/'' cp) args)
           \<and> (\<forall>m s d. m \<in> set (mounts_of config) \<and> get_prop m ''Type'' = Inr (JStr ''bind'')
                  \<and> get_prop m ''Source'' = Inr s \<and> get_prop m ''Destination'' = Inr d
                \<longrightarrow> adjacent ''-v'' (toString s @ '':'' @ toString d) args)
           \<and> (\<forall>e. JStr e \<in> set (env_of config)
                  \<and> \<not> startsWith e ''PATH='' \<and> \<not> startsWith e ''HOME=''
                \<longrightarrow> adjacent ''-e'' e args)
           \<and> (\<forall>e. startsWith e ''PATH='' \<or> startsWith e ''HOME='' \<longrightarrow> \<not> adjacent ''-e'' e args)
           \<and> adjacent ''--restart'' ''unless-stopped'' args
           \<and> last args = ''ghcr.io/tphakala/birdnet-go:'' @ imageTag"
proof -
  let ?img = "''ghcr.io/tphakala/birdnet-go:'' @ imageTag"
  from createArgs_preserves_configuration [OF shaped, of imageTag] obtain args where
    built: "createArgs config ?img = Inr args"
    and props: "(\<forall>cp bs b hp. (cp, JArr bs) \<in> set (port_bindings config) \<and> b \<in> set bs
                  \<and> get_prop b ''HostPort'' = Inr hp
                \<longrightarrow> adjacent ''-p'' (toString hp @ '':'' @ first_part CHR ''/'' cp) args)
           \<and> (\<forall>m s d. m \<in> set (mounts_of config) \<and> get_prop m ''Type'' = Inr (JStr ''bind'')
                  \<and> get_prop m ''Source'' = Inr s \<and> get_prop m ''Destination'' = Inr d
                \<longrightarrow> adjacent ''-v'' (toString s @ '':'' @ toString d) args)
           \<and> (\<forall>e. JStr e \<in> set (env_of config)
                  \<and> \<not> startsWith e ''PATH='' \<and> \<not> startsWith e ''HOME=''
                \<longrightarrow> adjacent ''-e'' e args)
           \<and> (\<forall>e. startsWith e ''PATH='' \<or> startsWith e ''HOME='' \<longrightarrow> \<not> adjacent ''-e'' e args)
           \<and> adjacent ''--restart'' ''unless-stopped'' args
           \<and> last args = ?img"
    by blast
  have config: "index0 (JArr (config # others)) = Inr config"
    by (simp add: index0_def)
  have recreate: "recreate_container h containerId ?img =
          ([Spawn [''docker'', ''stop'', containerId], Spawn [''docker'', ''inspect'', containerId],
            Spawn [''docker'', ''rm'', containerId], Spawn args],
           (case spawn h args of Inl e \<Rightarrow> Inl e | Inr started \<Rightarrow> Inr ()))"
    using stopped inspected parsed config removed built
    by (simp add: recreate_container_def run_spawn_def split: sum.splits)
  have trace: "upgradeBirdNetGo h st =
             [SetUpgrading True,
              Spawn [''docker'', ''pull'', ?img],
              Spawn [''docker'', ''stop'', containerId],
              Spawn [''docker'', ''inspect'', containerId],
              Spawn [''docker'', ''rm'', containerId],
              Spawn args]
             @ (case spawn h args of
                  Inl e \<Rightarrow> [Alert ''Failed to upgrade BirdNET-Go. Please check the logs.'']
                | Inr started \<Rightarrow> [RefreshStatus, CheckForUpdates])
             @ [SetUpgrading False]"
    using docker standalone tag pulled recreate
    by (simp add: upgradeBirdNetGo_def upgrade_try_def run_spawn_def Let_def split: sum.splits)
  have start: "take 3 args = [''docker'', ''run'', ''-d'']"
  proof -
    from createArgs_stages [OF shaped, of ?img] obtain n where
      stages: "createArgs config ?img =
               bind_err (forEach_js port_entry (run_prefix (replace_first CHR ''/'' n))
                           (port_bindings config)) (\<lambda>args1.
               bind_err (forEach_js push_mount args1 (mounts_of config)) (\<lambda>args2.
               bind_err (forEach_js push_env args2 (env_of config)) (\<lambda>args3.
                 Inr (args3 @ [?img]))))"
      by blast
    with built obtain a1 a2 a3 where
      a: "forEach_js port_entry (run_prefix (replace_first CHR ''/'' n)) (port_bindings config) = Inr a1"
        "forEach_js push_mount a1 (mounts_of config) = Inr a2"
        "forEach_js push_env a2 (env_of config) = Inr a3" "args = a3 @ [?img]"
      by (auto simp: bind_err_def split: sum.splits)
    have "grows (run_prefix (replace_first CHR ''/'' n)) a1"
      using a(1) by (rule forEach_js_grows) (simp add: port_entry_grows)
    moreover have "grows a1 a2"
      using a(2) by (rule forEach_js_grows) (simp add: push_mount_grows)
    moreover have "grows a2 a3"
      using a(3) by (rule forEach_js_grows) (simp add: push_env_grows)
    ultimately have "prefix (run_prefix (replace_first CHR ''/'' n)) args"
      using a(4) by (auto simp: grows_def intro: prefix_order.trans)
    then obtain rest where "args = run_prefix (replace_first CHR ''/'' n) @ rest"
      by (auto simp: prefix_def)
    then show ?thesis by (simp add: run_prefix_def)
  qed
  from trace built start props show ?thesis by blast
qed

lemma example_config_shaped: "inspect_shaped example_config"
  by (simp add: inspect_shaped_def example_config_def port_bindings_def bind_err_def
      object_entries_def not_nullish_def array_or_falsy_def is_string_def)

lemma example_config_parts:
  "(''8080/tcp'', JArr [JObj [(''HostIp'', JStr []), (''HostPort'', JStr ''8080'')]])
     \<in> set (port_bindings example_config)"
  "JObj [(''Type'', JStr ''bind''), (''Source'', JStr ''/data''), (''Destination'', JStr ''/data'')]
     \<in> set (mounts_of example_config)"
  "JStr ''FOO=bar'' \<in> set (env_of example_config)"
  by (simp_all add: example_config_def port_bindings_def mounts_of_def env_of_def bind_err_def
      object_entries_def)

lemma example_createArgs:
  "createArgs example_config ''ghcr.io/tphakala/birdnet-go:nightly'' =
     Inr [''docker'', ''run'', ''-d'', ''--name'', ''birdnet-go'', ''--restart'', ''unless-stopped'',
          ''-p'', ''8080:8080'', ''-v'', ''/data:/data'', ''-e'', ''FOO=bar'',
          ''ghcr.io/tphakala/birdnet-go:nightly'']"
  by (simp add: createArgs_def example_config_def bind_err_def object_entries_def port_entry_def
      push_port_def push_mount_def push_env_def forEach_val_def first_part_def startsWith_def)

lemma example_upgrade_trace:
  "upgradeBirdNetGo host_upgrade standalone_state =
     [SetUpgrading True,
      Spawn [''docker'', ''pull'', ''ghcr.io/tphakala/birdnet-go:nightly''],
      Spawn [''docker'', ''stop'', ''abc123''],
      Spawn [''docker'', ''inspect'', ''abc123''],
      Spawn [''docker'', ''rm'', ''abc123''],
      Spawn [''docker'', ''run'', ''-d'', ''--name'', ''birdnet-go'', ''--restart'', ''unless-stopped'',
             ''-p'', ''8080:8080'', ''-v'', ''/data:/data'', ''-e'', ''FOO=bar'',
             ''ghcr.io/tphakala/birdnet-go:nightly''],
      RefreshStatus, CheckForUpdates,
      SetUpgrading False]"
  by (simp add: upgradeBirdNetGo_def upgrade_try_def recreate_container_def run_spawn_def
      image_tag_def bind_err_def index0_def standalone_state_def host_upgrade_def
      nightly_info_def systemd_default_def example_createArgs startsWith_def Let_def)

theorem upgrade_preserves_configuration_witness:
  "\<exists>args. upgradeBirdNetGo host_upgrade standalone_state =
            [SetUpgrading True,
             Spawn [''docker'', ''pull'', ''ghcr.io/tphakala/birdnet-go:nightly''],
             Spawn [''docker'', ''stop'', ''abc123''],
             Spawn [''docker'', ''inspect'', ''abc123''],
             Spawn [''docker'', ''rm'', ''abc123''],
             Spawn args,
             RefreshStatus, CheckForUpdates,
             SetUpgrading False]
      \<and> adjacent ''-p'' ''8080:8080'' args
      \<and> adjacent ''-v'' ''/data:/data'' args
      \<and> adjacent ''-e'' ''FOO=bar'' args
      \<and> \<not> adjacent ''-e'' ''PATH=/usr/bin'' args
      \<and> \<not> adjacent ''-e'' ''HOME=/root'' args"
proof -
  let ?binding = "JObj [(''HostIp'', JStr []), (''HostPort'', JStr ''8080'')]"
  let ?mount = "JObj [(''Type'', JStr ''bind''), (''Source'', JStr ''/data''),
                      (''Destination'', JStr ''/data'')]"
  have docker: "d_available (dockerStatus standalone_state)"
      "d_running (dockerStatus standalone_state)"
    and standalone: "\<not> s_exists (systemdStatus standalone_state)"
      "c_containerId (containerStatus standalone_state) = Some ''abc123''" "''abc123'' \<noteq> []"
    by (simp_all add: standalone_state_def systemd_default_def)
  have tag: "image_tag (versionInfo standalone_state) = Inr ''nightly''"
    by (simp add: image_tag_def bind_err_def standalone_state_def nightly_info_def startsWith_def)
  have pulled: "spawn host_upgrade [''docker'', ''pull'', ''ghcr.io/tphakala/birdnet-go:'' @ ''nightly'']
                  = Inr []"
    and stopped: "spawn host_upgrade [''docker'', ''stop'', ''abc123''] = Inr []"
    and inspected: "spawn host_upgrade [''docker'', ''inspect'', ''abc123''] = Inr ''inspect answer''"
    and removed: "spawn host_upgrade [''docker'', ''rm'', ''abc123''] = Inr []"
    and parsed: "JSON_parse host_upgrade ''inspect answer'' = Some (JArr (example_config # []))"
    by (simp_all add: host_upgrade_def)
  have answers: "\<exists>out. spawn host_upgrade cmd = Inr out" for cmd
    by (simp add: host_upgrade_def)
  from upgrade_preserves_configuration
    [OF docker standalone tag pulled stopped inspected parsed example_config_shaped removed]
  obtain args where
    trace: "upgradeBirdNetGo host_upgrade standalone_state =
             [SetUpgrading True,
              Spawn [''docker'', ''pull'', ''ghcr.io/tphakala/birdnet-go:'' @ ''nightly''],
              Spawn [''docker'', ''stop'', ''abc123''],
              Spawn [''docker'', ''inspect'', ''abc123''],
              Spawn [''docker'', ''rm'', ''abc123''],
              Spawn args]
             @ (case spawn host_upgrade args of
                  Inl e \<Rightarrow> [Alert ''Failed to upgrade BirdNET-Go. Please check the logs.'']
                | Inr started \<Rightarrow> [RefreshStatus, CheckForUpdates])
             @ [SetUpgrading False]"
    and ports: "\<forall>cp bs b hp. (cp, JArr bs) \<in> set (port_bindings example_config) \<and> b \<in> set bs
                  \<and> get_prop b ''HostPort'' = Inr hp
                \<longrightarrow> adjacent ''-p'' (toString hp @ '':'' @ first_part CHR ''/'' cp) args"
    and vols: "\<forall>m s d. m \<in> set (mounts_of example_config)
                  \<and> get_prop m ''Type'' = Inr (JStr ''bind'')
                  \<and> get_prop m ''Source'' = Inr s \<and> get_prop m ''Destination'' = Inr d
                \<longrightarrow> adjacent ''-v'' (toString s @ '':'' @ toString d) args"
    and envs: "\<forall>e. JStr e \<in> set (env_of example_config)
                  \<and> \<not> startsWith e ''PATH='' \<and> \<not> startsWith e ''HOME=''
                \<longrightarrow> adjacent ''-e'' e args"
    and excluded: "\<forall>e. startsWith e ''PATH='' \<or> startsWith e ''HOME=''
                     \<longrightarrow> \<not> adjacent ''-e'' e args"
    by blast
  from answers [of args] obtain out where "spawn host_upgrade args = Inr out" ..
  with trace have t: "upgradeBirdNetGo host_upgrade standalone_state =
            [SetUpgrading True,
             Spawn [''docker'', ''pull'', ''ghcr.io/tphakala/birdnet-go:nightly''],
             Spawn [''docker'', ''stop'', ''abc123''],
             Spawn [''docker'', ''inspect'', ''abc123''],
             Spawn [''docker'', ''rm'', ''abc123''],
             Spawn args,
             RefreshStatus, CheckForUpdates,
             SetUpgrading False]"
    by simp
  have "(''8080/tcp'', JArr [?binding]) \<in> set (port_bindings example_config)
          \<and> ?binding \<in> set [?binding] \<and> get_prop ?binding ''HostPort'' = Inr (JStr ''8080'')"
    using example_config_parts(1) by simp
  with ports have
    "adjacent ''-p'' (toString (JStr ''8080'') @ '':'' @ first_part CHR ''/'' ''8080/tcp'') args"
    by blast
  then have p: "adjacent ''-p'' ''8080:8080'' args"
    by (simp add: first_part_def)
  have "?mount \<in> set (mounts_of example_config) \<and> get_prop ?mount ''Type'' = Inr (JStr ''bind'')
          \<and> get_prop ?mount ''Source'' = Inr (JStr ''/data'')
          \<and> get_prop ?mount ''Destination'' = Inr (JStr ''/data'')"
    using example_config_parts(2) by simp
  with vols have
    "adjacent ''-v'' (toString (JStr ''/data'') @ '':'' @ toString (JStr ''/data'')) args"
    by blast
  then have v: "adjacent ''-v'' ''/data:/data'' args"
    by simp
  have e: "adjacent ''-e'' ''FOO=bar'' args"
    using envs example_config_parts(3) by (simp add: startsWith_def)
  have x: "\<not> adjacent ''-e'' ''PATH=/usr/bin'' args" "\<not> adjacent ''-e'' ''HOME=/root'' args"
    using excluded by (simp_all add: startsWith_def)
  from t p v e x show ?thesis by blast
qed

end
